theory Spec2Isabelle
  imports Complex_Main
begin

section \<open>JavaScript helpers\<close>

text \<open>
  Strings are JavaScript strings read as character lists. \<open>js_includes s sub\<close> is
  \<^verbatim>\<open>s.includes(sub)\<close>; \<open>toLowerCase\<close> is the ASCII part of
  \<^verbatim>\<open>String.prototype.toLowerCase\<close>. A string is truthy when it is not empty, and
  \<open>js_or a b\<close> is \<^verbatim>\<open>a || b\<close> on values that are a string or undefined.
\<close>

fun startsWith :: "string \<Rightarrow> string \<Rightarrow> bool" where
  "startsWith s [] = True"
| "startsWith [] (c # cs) = False"
| "startsWith (d # ds) (c # cs) = (d = c \<and> startsWith ds cs)"

fun js_includes :: "string \<Rightarrow> string \<Rightarrow> bool" where
  "js_includes [] sub = (sub = [])"
| "js_includes (d # ds) sub = (startsWith (d # ds) sub \<or> js_includes ds sub)"

definition lowerChar :: "char \<Rightarrow> char" where
  "lowerChar c =
     (let n = (of_char c :: nat) in if 65 \<le> n \<and> n \<le> 90 then char_of (n + 32) else c)"

definition toLowerCase :: "string \<Rightarrow> string" where
  "toLowerCase s = map lowerChar s"

definition truthy :: "string option \<Rightarrow> bool" where
  "truthy v = (case v of None \<Rightarrow> False | Some s \<Rightarrow> s \<noteq> [])"

definition js_or :: "string option \<Rightarrow> string option \<Rightarrow> string option" where
  "js_or a b = (if truthy a then a else b)"

section \<open>The webhook queue (class WebhookQueue)\<close>

subsection \<open>Data\<close>

text \<open>
  A webhook payload is read only through \<^verbatim>\<open>webhookData.id?.toString()\<close> and
  \<^verbatim>\<open>webhookData.order_id?.toString()\<close>: each field is \<open>None\<close> when the payload has no
  such field (or holds null), and otherwise the string that \<^verbatim>\<open>toString()\<close> gives.
\<close>

record webhook =
  wh_id :: "string option"
  wh_order_id :: "string option"

record queue_item =
  orderId :: string
  webhookData :: webhook
  topic :: string
  shop :: string
  enqueuedAt :: int
  retryCount :: nat

datatype status = Processing | Completed | Failed

text \<open>The outcome of \<^verbatim>\<open>await this.processWebhook(item)\<close> when the promise resolves.\<close>

record proc_result =
  pr_success :: bool
  pr_retry :: bool
  pr_error :: "string option"

record cache_entry =
  timestamp :: int
  status :: status
  result :: "proc_result option"
  entry_error :: "string option"

record queue_config =
  cacheTTL :: int
  minRequestDelay :: int
  maxRetries :: int
  baseRetryDelay :: int
  maxRetryDelay :: int
  cleanupInterval :: int

record queue_stats =
  total :: int
  processed :: int
  duplicates :: int
  failed :: int
  retries :: int

record wq_state =
  queue :: "queue_item list"
  processedOrders :: "string \<rightharpoonup> cache_entry"
  isProcessing :: bool
  config :: queue_config
  stats :: queue_stats

text \<open>
  The constructor: every option falls back to its default when it is absent or zero
  (\<^verbatim>\<open>options.x || default\<close>).
\<close>

definition orDefault :: "int option \<Rightarrow> int \<Rightarrow> int" where
  "orDefault v d = (case v of None \<Rightarrow> d | Some x \<Rightarrow> if x = 0 then d else x)"

record queue_options =
  opt_cacheTTL :: "int option"
  opt_minRequestDelay :: "int option"
  opt_maxRetries :: "int option"
  opt_baseRetryDelay :: "int option"
  opt_maxRetryDelay :: "int option"
  opt_cleanupInterval :: "int option"

definition newWebhookQueue :: "queue_options \<Rightarrow> wq_state" where
  "newWebhookQueue options =
     \<lparr> queue = [],
       processedOrders = Map.empty,
       isProcessing = False,
       config = \<lparr> cacheTTL = orDefault (opt_cacheTTL options) (24 * 60 * 60 * 1000),
                  minRequestDelay = orDefault (opt_minRequestDelay options) 1500,
                  maxRetries = orDefault (opt_maxRetries options) 5,
                  baseRetryDelay = orDefault (opt_baseRetryDelay options) 5000,
                  maxRetryDelay = orDefault (opt_maxRetryDelay options) 120000,
                  cleanupInterval = orDefault (opt_cleanupInterval options) (60 * 60 * 1000) \<rparr>,
       stats = \<lparr> total = 0, processed = 0, duplicates = 0, failed = 0, retries = 0 \<rparr> \<rparr>"

subsection \<open>The idempotency cache\<close>

text \<open>Every function that reads \<^verbatim>\<open>Date.now()\<close> takes the reading as \<open>now\<close>.\<close>

definition isOrderProcessed :: "wq_state \<Rightarrow> string \<Rightarrow> int \<Rightarrow> bool \<times> wq_state" where
  "isOrderProcessed s i now =
     (if i = [] then (False, s)
      else (case processedOrders s i of
              None \<Rightarrow> (False, s)
            | Some cached \<Rightarrow>
                if now - timestamp cached > cacheTTL (config s)
                then (False, s\<lparr>processedOrders := (processedOrders s)(i := None)\<rparr>)
                else (status cached = Completed \<or> status cached = Processing, s)))"

definition markAsProcessing :: "wq_state \<Rightarrow> string \<Rightarrow> int \<Rightarrow> wq_state" where
  "markAsProcessing s i now =
     s\<lparr>processedOrders := (processedOrders s)
          (i \<mapsto> \<lparr>timestamp = now, status = Processing, result = None, entry_error = None\<rparr>)\<rparr>"

definition markAsCompleted :: "wq_state \<Rightarrow> string \<Rightarrow> proc_result \<Rightarrow> int \<Rightarrow> wq_state" where
  "markAsCompleted s i res now =
     s\<lparr>processedOrders := (processedOrders s)
          (i \<mapsto> \<lparr>timestamp = now, status = Completed, result = Some res, entry_error = None\<rparr>),
       stats := (stats s)\<lparr>processed := processed (stats s) + 1\<rparr>\<rparr>"

definition markAsFailed :: "wq_state \<Rightarrow> string \<Rightarrow> string option \<Rightarrow> int \<Rightarrow> wq_state" where
  "markAsFailed s i err now =
     s\<lparr>processedOrders := (processedOrders s)
          (i \<mapsto> \<lparr>timestamp = now, status = Failed, result = None, entry_error = err\<rparr>),
       stats := (stats s)\<lparr>failed := failed (stats s) + 1\<rparr>\<rparr>"

definition cleanupCache :: "wq_state \<Rightarrow> int \<Rightarrow> wq_state" where
  "cleanupCache s now =
     s\<lparr>processedOrders :=
         (\<lambda>i. case processedOrders s i of
                None \<Rightarrow> None
              | Some d \<Rightarrow> if now - timestamp d > cacheTTL (config s) then None else Some d)\<rparr>"

definition forceReprocess :: "wq_state \<Rightarrow> string \<Rightarrow> bool \<times> wq_state" where
  "forceReprocess s i = (True, s\<lparr>processedOrders := (processedOrders s)(i := None)\<rparr>)"

subsection \<open>enqueue\<close>

datatype enqueue_reason = missing_order_id | duplicate | already_queued

record enqueue_result =
  queued :: bool
  reason :: "enqueue_reason option"
  res_orderId :: "string option"
  cacheStatus :: "status option"
  position :: "nat option"

text \<open>
  \<^verbatim>\<open>processQueue()\<close> is an async function: called from \<open>enqueue\<close> it runs up to its first
  \<^verbatim>\<open>await\<close> before \<open>enqueue\<close> returns. That part returns at once when a consumer is
  active; otherwise it sets \<open>isProcessing\<close> and, the queue not being empty, marks the head
  of the queue as processing and starts the processor on it.
\<close>

definition processQueue_start :: "wq_state \<Rightarrow> int \<Rightarrow> wq_state" where
  "processQueue_start s now =
     (if isProcessing s then s
      else (case queue s of
              [] \<Rightarrow> s\<lparr>isProcessing := False\<rparr>
            | item # rest \<Rightarrow> markAsProcessing (s\<lparr>isProcessing := True\<rparr>) (orderId item) now))"

definition enqueue :: "wq_state \<Rightarrow> webhook \<Rightarrow> string \<Rightarrow> string \<Rightarrow> int \<Rightarrow> enqueue_result \<times> wq_state" where
  "enqueue s wd tp sh now =
     (case js_or (wh_id wd) (wh_order_id wd) of
        None \<Rightarrow>
          (\<lparr>queued = False, reason = Some missing_order_id, res_orderId = None,
            cacheStatus = None, position = None\<rparr>, s)
      | Some i \<Rightarrow>
          if i = [] then
            (\<lparr>queued = False, reason = Some missing_order_id, res_orderId = None,
              cacheStatus = None, position = None\<rparr>, s)
          else
            let s1 = s\<lparr>stats := (stats s)\<lparr>total := total (stats s) + 1\<rparr>\<rparr>;
                (dup, s2) = isOrderProcessed s1 i now
            in
            if dup then
              (\<lparr>queued = False, reason = Some duplicate, res_orderId = Some i,
                cacheStatus = map_option status (processedOrders s2 i), position = None\<rparr>,
               s2\<lparr>stats := (stats s2)\<lparr>duplicates := duplicates (stats s2) + 1\<rparr>\<rparr>)
            else if list_ex (\<lambda>item. orderId item = i) (queue s2) then
              (\<lparr>queued = False, reason = Some already_queued, res_orderId = Some i,
                cacheStatus = None, position = None\<rparr>,
               s2\<lparr>stats := (stats s2)\<lparr>duplicates := duplicates (stats s2) + 1\<rparr>\<rparr>)
            else
              let queueItem = \<lparr>orderId = i, webhookData = wd, topic = tp, shop = sh,
                                 enqueuedAt = now, retryCount = 0\<rparr>;
                  s3 = s2\<lparr>queue := queue s2 @ [queueItem]\<rparr>;
                  s4 = processQueue_start s3 now
              in (\<lparr>queued = True, reason = None, res_orderId = Some i,
                   cacheStatus = None, position = Some (length (queue s4))\<rparr>, s4))"

subsection \<open>The consumer loop (processQueue)\<close>

text \<open>
  An error object as the code reads it: \<^verbatim>\<open>error.response?.status\<close>,
  \<^verbatim>\<open>error.response?.headers?.['retry-after']\<close> (the wait the server suggests, in
  seconds) and the message that \<^verbatim>\<open>serializeError\<close> or \<^verbatim>\<open>error.message\<close> gives.
\<close>

record js_error =
  err_status :: "nat option"
  err_retry_after :: "string option"
  err_message :: string

text \<open>
  \<^verbatim>\<open>await this.processWebhook(item)\<close> either resolves to a result object or rejects with
  an error. The method of the class itself always rejects.
\<close>

datatype pw_outcome = Resolved proc_result | Rejected js_error

definition processWebhook_default :: pw_outcome where
  "processWebhook_default =
     Rejected \<lparr>err_status = None, err_retry_after = None,
               err_message = ''processWebhook debe ser implementado''\<rparr>"

text \<open>
  \<^verbatim>\<open>setProcessor(processor)\<close> replaces \<^verbatim>\<open>processWebhook\<close> by a wrapper that never rejects.
  The processor returns an object, whose own \<open>success\<close>, \<open>retry\<close> and \<open>error\<close> fields
  (when present) override the wrapper's, or it throws.
\<close>

record processor_result =
  p_success :: "bool option"
  p_retry :: "bool option"
  p_error :: "string option"

datatype processor_outcome = Returned processor_result | Threw js_error

definition setProcessor :: "processor_outcome \<Rightarrow> pw_outcome" where
  "setProcessor out =
     (case out of
        Returned r \<Rightarrow>
          Resolved \<lparr>pr_success = (case p_success r of None \<Rightarrow> True | Some b \<Rightarrow> b),
                    pr_retry = (case p_retry r of None \<Rightarrow> False | Some b \<Rightarrow> b),
                    pr_error = p_error r\<rparr>
      | Threw e \<Rightarrow>
          Resolved \<lparr>pr_success = False,
                    pr_retry = (err_status e = Some 429 \<or> js_includes (err_message e) ''429'' \<or>
                                js_includes (toLowerCase (err_message e)) ''rate limit''),
                    pr_error = Some (err_message e)\<rparr>)"

text \<open>The rate-limit test of the \<^verbatim>\<open>catch\<close> block of \<^verbatim>\<open>processQueue\<close>.\<close>

definition isRateLimit :: "js_error \<Rightarrow> bool" where
  "isRateLimit e =
     (err_status e = Some 429 \<or> js_includes (err_message e) ''429'' \<or>
      js_includes (toLowerCase (err_message e)) ''rate limit'' \<or>
      js_includes (toLowerCase (err_message e)) ''too many requests'')"

text \<open>
  \<^verbatim>\<open>Math.min(baseRetryDelay * Math.pow(2, item.retryCount - 1), maxRetryDelay)\<close>, computed
  after \<open>retryCount\<close> has been incremented.
\<close>

definition retryDelay :: "queue_config \<Rightarrow> nat \<Rightarrow> int" where
  "retryDelay cfg rc = min (baseRetryDelay cfg * 2 ^ (rc - 1)) (maxRetryDelay cfg)"

text \<open>The retry branch, the same in the \<^verbatim>\<open>try\<close> and in the \<^verbatim>\<open>catch\<close> block.\<close>

definition scheduleRetry :: "wq_state \<Rightarrow> queue_item \<Rightarrow> queue_item list \<Rightarrow> wq_state \<times> int list" where
  "scheduleRetry s item rest =
     (let item' = item\<lparr>retryCount := retryCount item + 1\<rparr>;
          s1 = s\<lparr>queue := item' # rest,
                 stats := (stats s)\<lparr>retries := retries (stats s) + 1\<rparr>\<rparr>;
          d = retryDelay (config s1) (retryCount item');
          s2 = s1\<lparr>processedOrders := (processedOrders s1)(orderId item := None)\<rparr>
      in (s2, [d]))"

text \<open>
  One pass through the body of the \<^verbatim>\<open>while\<close> loop, for the head \<open>item\<close> of the queue
  \<open>item # rest\<close>: \<open>t0\<close> is the clock when the item is marked as processing, \<open>out\<close> what
  the processor gave and \<open>t1\<close> the clock at that moment. The result is the state in
  which the loop then sleeps, and the list of delays it awaits there.
\<close>

definition processItem ::
  "wq_state \<Rightarrow> queue_item \<Rightarrow> queue_item list \<Rightarrow> pw_outcome \<Rightarrow> int \<Rightarrow> int \<Rightarrow> wq_state \<times> int list" where
  "processItem s item rest out t0 t1 =
     (let s1 = markAsProcessing s (orderId item) t0;
          (s2, sleeps) =
            (case out of
               Resolved res \<Rightarrow>
                 if pr_success res then
                   ((markAsCompleted s1 (orderId item) res t1)\<lparr>queue := rest\<rparr>, [])
                 else if pr_retry res \<and> int (retryCount item) < maxRetries (config s1) then
                   scheduleRetry s1 item rest
                 else
                   ((markAsFailed s1 (orderId item) (pr_error res) t1)\<lparr>queue := rest\<rparr>, [])
             | Rejected e \<Rightarrow>
                 if isRateLimit e \<and> int (retryCount item) < maxRetries (config s1) then
                   scheduleRetry s1 item rest
                 else
                   ((markAsFailed s1 (orderId item) (Some (err_message e)) t1)\<lparr>queue := rest\<rparr>, []))
      in (s2, sleeps @ (if queue s2 \<noteq> [] then [minRequestDelay (config s2)] else [])))"

text \<open>
  A run of the consumer with no other caller in between: the queue state, the clock
  (\<^verbatim>\<open>Date.now()\<close>), how many times the processor has been invoked, and the delays
  awaited so far. The processor is a function of the invocation number and the item; it
  gives the outcome and the time the call took. A delay advances the clock by its length.
\<close>

record consumer =
  cs_state :: wq_state
  cs_clock :: int
  cs_calls :: nat
  cs_sleeps :: "int list"

definition consumer_step :: "(nat \<Rightarrow> queue_item \<Rightarrow> pw_outcome \<times> int) \<Rightarrow> consumer \<Rightarrow> consumer" where
  "consumer_step pw c =
     (case queue (cs_state c) of
        [] \<Rightarrow> c
      | item # rest \<Rightarrow>
          let (out, dur) = pw (cs_calls c) item;
              (s', sleeps) = processItem (cs_state c) item rest out (cs_clock c) (cs_clock c + dur)
          in \<lparr>cs_state = s', cs_clock = cs_clock c + dur + sum_list sleeps,
              cs_calls = Suc (cs_calls c), cs_sleeps = cs_sleeps c @ sleeps\<rparr>)"

definition consumer_measure :: "wq_state \<Rightarrow> nat" where
  "consumer_measure s =
     sum_list (map (\<lambda>item. Suc (nat (maxRetries (config s) - int (retryCount item)))) (queue s))"

lemma processItem_config: "config (fst (processItem s item rest out t0 t1)) = config s"
  by (simp add: processItem_def scheduleRetry_def markAsProcessing_def markAsCompleted_def
      markAsFailed_def Let_def split: pw_outcome.splits prod.splits)

lemma processItem_measure:
  "consumer_measure (fst (processItem (s\<lparr>queue := item # rest\<rparr>) item rest out t0 t1))
     < consumer_measure (s\<lparr>queue := item # rest\<rparr>)"
  by (auto simp add: processItem_def scheduleRetry_def markAsProcessing_def markAsCompleted_def
      markAsFailed_def consumer_measure_def Let_def split: pw_outcome.splits prod.splits)

lemma consumer_step_measure:
  assumes "queue (cs_state c) = item # rest"
  shows "consumer_measure (cs_state (consumer_step pw c)) < consumer_measure (cs_state c)"
proof -
  have s: "cs_state c = (cs_state c)\<lparr>queue := item # rest\<rparr>" using assms by simp
  obtain out dur where p: "pw (cs_calls c) item = (out, dur)" by fastforce
  have "cs_state (consumer_step pw c)
          = fst (processItem (cs_state c) item rest out (cs_clock c) (cs_clock c + dur))"
    using assms p by (simp add: consumer_step_def split: prod.splits)
  then show ?thesis using processItem_measure[where s = "cs_state c" and item = item and rest = rest and out = out] s by metis
qed

function processQueue_loop :: "(nat \<Rightarrow> queue_item \<Rightarrow> pw_outcome \<times> int) \<Rightarrow> consumer \<Rightarrow> consumer" where
  "processQueue_loop pw c =
     (if queue (cs_state c) \<noteq> [] then processQueue_loop pw (consumer_step pw c)
      else c\<lparr>cs_state := (cs_state c)\<lparr>isProcessing := False\<rparr>\<rparr>)"
  by pat_completeness auto
termination
proof (relation "measure (\<lambda>(pw, c). consumer_measure (cs_state c))")
  show "wf (measure (\<lambda>(pw, c). consumer_measure (cs_state c)))" by simp
next
  fix pw :: "nat \<Rightarrow> queue_item \<Rightarrow> pw_outcome \<times> int" and c :: consumer
  assume "queue (cs_state c) \<noteq> []"
  then obtain item rest where "queue (cs_state c) = item # rest" by (cases "queue (cs_state c)") auto
  then show "((pw, consumer_step pw c), (pw, c)) \<in> measure (\<lambda>(pw, c). consumer_measure (cs_state c))"
    using consumer_step_measure by simp
qed

declare processQueue_loop.simps [simp del]

definition processQueue :: "(nat \<Rightarrow> queue_item \<Rightarrow> pw_outcome \<times> int) \<Rightarrow> consumer \<Rightarrow> consumer" where
  "processQueue pw c =
     (if isProcessing (cs_state c) then c
      else processQueue_loop pw (c\<lparr>cs_state := (cs_state c)\<lparr>isProcessing := True\<rparr>\<rparr>))"

text \<open>
  How the body of the loop reads an outcome: as a success (first branch of the
  \<^verbatim>\<open>try\<close> block), or as a rate-limit failure to retry (the \<^verbatim>\<open>result.retry\<close> test of
  the \<^verbatim>\<open>try\<close> block, the \<open>isRateLimit\<close> test of the \<^verbatim>\<open>catch\<close> block).
\<close>

definition successOutcome :: "pw_outcome \<Rightarrow> bool" where
  "successOutcome out = (case out of Resolved res \<Rightarrow> pr_success res | Rejected e \<Rightarrow> False)"

definition retryOutcome :: "pw_outcome \<Rightarrow> bool" where
  "retryOutcome out =
     (case out of
        Resolved res \<Rightarrow> \<not> pr_success res \<and> pr_retry res
      | Rejected e \<Rightarrow> isRateLimit e)"

text \<open>
  The state of a run that holds the single event \<open>item\<close> after \<open>k\<close> retries, \<open>n\<close>
  being the number of processor calls before the run.
\<close>

definition retry_wait :: "wq_state \<Rightarrow> queue_item \<Rightarrow> nat \<Rightarrow> nat \<Rightarrow> consumer \<Rightarrow> bool" where
  "retry_wait s item n k c =
     (queue (cs_state c) = [item\<lparr>retryCount := k\<rparr>] \<and> config (cs_state c) = config s \<and>
      retries (stats (cs_state c)) = int k \<and> cs_calls c = n + k)"

section \<open>Stock synchronisation (syncStocks.js)\<close>

subsection \<open>Numbers in strings\<close>

text \<open>
  \<open>show_nat\<close> is the decimal text of a number in a template string; \<open>parseInt10 s\<close> is
  \<^verbatim>\<open>parseInt(s, 10)\<close>: white space, a sign, then decimal digits up to the first other
  character; \<open>None\<close> stands for NaN.
\<close>

definition digitChar :: "nat \<Rightarrow> char" where
  "digitChar d = char_of (48 + d)"

fun show_nat :: "nat \<Rightarrow> string" where
  "show_nat n = (if n < 10 then [digitChar n] else show_nat (n div 10) @ [digitChar (n mod 10)])"

definition isDigit :: "char \<Rightarrow> bool" where
  "isDigit c = (let n = (of_char c :: nat) in 48 \<le> n \<and> n \<le> 57)"

definition isWhiteSpace :: "char \<Rightarrow> bool" where
  "isWhiteSpace c = (let n = (of_char c :: nat) in n = 32 \<or> (9 \<le> n \<and> n \<le> 13))"

definition digitsValue :: "string \<Rightarrow> int" where
  "digitsValue ds = foldl (\<lambda>a c. 10 * a + (int (of_char c) - 48)) 0 ds"

definition parseInt10 :: "string \<Rightarrow> int option" where
  "parseInt10 s =
     (let s1 = dropWhile isWhiteSpace s;
          (sign, s2) = (case s1 of
                          [] \<Rightarrow> (1, s1)
                        | c # cs \<Rightarrow> if c = CHR ''-'' then (- 1, cs)
                                    else if c = CHR ''+'' then (1, cs) else (1, s1));
          ds = takeWhile isDigit s2
      in if ds = [] then None else Some (sign * digitsValue ds))"

subsection \<open>Data\<close>

text \<open>
  A Manager+ product as the synchroniser reads it: \<open>mp_stock\<close> is the integer that
  \<^verbatim>\<open>parseInt(managerProduct.stock) || 0\<close> gives. A Shopify variant carries its inventory
  item and the stock Shopify holds for it.
\<close>

record manager_product =
  mp_sku :: string
  mp_stock :: int

record shopify_product =
  sp_sku :: string
  inventoryItemId :: nat
  currentStock :: int

datatype action = Updated | WouldUpdate | NoChange | Skipped | Error

record sync_result =
  sku :: string
  success :: bool
  error :: "string option"
  action :: action
  managerStock :: "int option"
  shopifyStock :: "int option"
  newStock :: "int option"
  message :: "string option"

record sync_options =
  o_dryRun :: bool
  o_forceUpdate :: bool
  o_concurrency :: "int option"
  o_maxRetries :: "int option"
  o_retryDelay :: "int option"
  o_useManagerBulk :: bool

text \<open>
  An HTTP call answers with a value or fails with an error object; a function of the
  module returns a value or throws, and of what it throws only the message is read.
\<close>

datatype 'a http = Ok 'a | Err js_error

datatype 'a thrown_or = Return 'a | Throw string

subsection \<open>getManagerProductBySKU\<close>

text \<open>
  The wait before a retry after a 429: the Retry-After header in milliseconds when the
  header is there, otherwise \<^verbatim>\<open>Math.min(5000, 1500 * attempt)\<close>. \<open>None\<close> is NaN, on
  which \<^verbatim>\<open>setTimeout\<close> does not wait.
\<close>

definition managerRetryMs :: "js_error \<Rightarrow> nat \<Rightarrow> int option" where
  "managerRetryMs e attempt =
     (case err_retry_after e of
        None \<Rightarrow> Some (min 5000 (1500 * int attempt))
      | Some h \<Rightarrow> if h = [] then Some (min 5000 (1500 * int attempt))
                  else map_option (\<lambda>k. k * 1000) (parseInt10 h))"

definition sleepMs :: "int option \<Rightarrow> int" where
  "sleepMs ms = (case ms of None \<Rightarrow> 0 | Some d \<Rightarrow> d)"

text \<open>
  \<open>responses k\<close> is what Manager+ answers to the request of attempt \<open>k\<close>: the product,
  no product (empty data), or an error. The result is what the function returns or
  throws, with the delays it awaited.
\<close>

function getManagerProductBySKU ::
  "(nat \<Rightarrow> manager_product option http) \<Rightarrow> string \<Rightarrow> nat
     \<Rightarrow> manager_product option thrown_or \<times> int list" where
  "getManagerProductBySKU responses sk attempt =
     (case responses attempt of
        Ok productData \<Rightarrow> (Return productData, [])
      | Err e \<Rightarrow>
          if err_status e = Some 404 then (Return None, [])
          else if err_status e = Some 429 then
            (let retryMs = managerRetryMs e attempt in
             if attempt < 3 then
               (let (r, sleeps) = getManagerProductBySKU responses sk (attempt + 1)
                in (r, sleepMs retryMs # sleeps))
             else (Throw ''Rate limit alcanzado en Manager+ (429). Reduce la concurrencia.'', []))
          else (case err_status e of
                  None \<Rightarrow> (Throw (err_message e), [])
                | Some st \<Rightarrow>
                    if st \<ge> 500 then
                      (Throw (''Error del servidor Manager+ ('' @ show_nat st @
                              ''). Puede estar sobrecargado.''), [])
                    else (Throw (err_message e), [])))"
  by pat_completeness auto
termination
  by (relation "measure (\<lambda>(responses, sk, attempt). 3 - attempt)") auto

declare getManagerProductBySKU.simps [simp del]

subsection \<open>updateShopifyStock\<close>

record stock_write =
  sw_inventoryItemId :: nat
  sw_locationId :: nat
  sw_available :: int

definition updateShopifyStock :: "unit http \<Rightarrow> unit thrown_or" where
  "updateShopifyStock response =
     (case response of
        Ok u \<Rightarrow> Return u
      | Err e \<Rightarrow>
          if err_status e = Some 429 then
            (case err_retry_after e of
               None \<Rightarrow> Throw ''Rate limit de Shopify alcanzado (429). Reduce la concurrencia o espera un momento.''
             | Some h \<Rightarrow>
                 if h = [] then Throw ''Rate limit de Shopify alcanzado (429). Reduce la concurrencia o espera un momento.''
                 else Throw (''Rate limit de Shopify alcanzado. Espera '' @ h @
                             '' segundos antes de continuar.''))
          else (case err_status e of
                  None \<Rightarrow> Throw (err_message e)
                | Some st \<Rightarrow>
                    if st \<ge> 500 then
                      Throw (''Error del servidor Shopify ('' @ show_nat st @
                             ''). Puede estar sobrecargado.'')
                    else Throw (err_message e)))"

subsection \<open>syncProductStock\<close>

text \<open>
  What the outside world answers during one call of the worker: Manager+ to the per-SKU
  requests, \<^verbatim>\<open>loadAllShopifyProducts\<close> (asked only when no Shopify map is passed),
  \<^verbatim>\<open>getShopifyLocationId\<close> (asked only when no location is passed) and Shopify to the
  inventory update.
\<close>

record world =
  w_manager :: "nat \<Rightarrow> manager_product option http"
  w_shopifyLoad :: "(string \<rightharpoonup> shopify_product) thrown_or"
  w_location :: "nat thrown_or"
  w_update :: "unit http"

definition errorResult :: "string \<Rightarrow> string \<Rightarrow> sync_result" where
  "errorResult sk msg =
     \<lparr>sku = sk, success = False, error = Some msg, action = Error,
      managerStock = None, shopifyStock = None, newStock = None, message = None\<rparr>"

definition skippedResult :: "string \<Rightarrow> string \<Rightarrow> sync_result" where
  "skippedResult sk msg =
     \<lparr>sku = sk, success = False, error = Some msg, action = Skipped,
      managerStock = None, shopifyStock = None, newStock = None, message = None\<rparr>"

definition lookupManagerProduct ::
  "(string \<rightharpoonup> manager_product) option \<Rightarrow> world \<Rightarrow> string \<Rightarrow> manager_product option thrown_or" where
  "lookupManagerProduct managerProductsMap w sk =
     (case managerProductsMap of
        None \<Rightarrow> fst (getManagerProductBySKU (w_manager w) sk 1)
      | Some m \<Rightarrow>
          (case m sk of
             Some p \<Rightarrow> Return (Some p)
           | None \<Rightarrow> fst (getManagerProductBySKU (w_manager w) sk 1)))"

definition getShopifyProductStockBySKU ::
  "string \<Rightarrow> (string \<rightharpoonup> shopify_product) option \<Rightarrow> world \<Rightarrow> shopify_product option thrown_or" where
  "getShopifyProductStockBySKU sk productsMap w =
     (case productsMap of
        Some m \<Rightarrow> Return (m sk)
      | None \<Rightarrow> (case w_shopifyLoad w of Throw msg \<Rightarrow> Throw msg | Return m \<Rightarrow> Return (m sk)))"

text \<open>
  The worker returns its result object; the second component lists the inventory
  updates it sent to Shopify. The message texts are written without their accents.
\<close>

definition syncProductStock ::
  "string \<Rightarrow> sync_options \<Rightarrow> (string \<rightharpoonup> shopify_product) option \<Rightarrow> nat option
     \<Rightarrow> (string \<rightharpoonup> manager_product) option \<Rightarrow> world \<Rightarrow> sync_result \<times> stock_write list" where
  "syncProductStock sk options shopifyProductsMap locationId managerProductsMap w =
     (case lookupManagerProduct managerProductsMap w sk of
        Throw msg \<Rightarrow> (errorResult sk msg, [])
      | Return None \<Rightarrow> (skippedResult sk ''Producto no encontrado en Manager+'', [])
      | Return (Some managerProduct) \<Rightarrow>
          (case getShopifyProductStockBySKU sk shopifyProductsMap w of
             Throw msg \<Rightarrow> (errorResult sk msg, [])
           | Return None \<Rightarrow> (skippedResult sk ''Producto no encontrado en Shopify'', [])
           | Return (Some shopifyProduct) \<Rightarrow>
               (let mStock = mp_stock managerProduct;
                    sStock = currentStock shopifyProduct
                in
                if mStock = sStock \<and> \<not> o_forceUpdate options then
                  (\<lparr>sku = sk, success = True, error = None, action = NoChange,
                    managerStock = Some mStock, shopifyStock = Some sStock, newStock = None,
                    message = Some ''Stocks ya estan sincronizados''\<rparr>, [])
                else if o_dryRun options then
                  (\<lparr>sku = sk, success = True, error = None, action = WouldUpdate,
                    managerStock = Some mStock, shopifyStock = Some sStock,
                    newStock = Some mStock,
                    message = Some ''Dry run: no se realizaron cambios''\<rparr>, [])
                else
                  (case (case locationId of
                           None \<Rightarrow> w_location w
                         | Some l \<Rightarrow> if l = 0 then w_location w else Return l) of
                     Throw msg \<Rightarrow> (errorResult sk msg, [])
                   | Return loc \<Rightarrow>
                       (let wr = \<lparr>sw_inventoryItemId = inventoryItemId shopifyProduct,
                                  sw_locationId = loc, sw_available = mStock\<rparr>
                        in case updateShopifyStock (w_update w) of
                             Throw msg \<Rightarrow> (errorResult sk msg, [wr])
                           | Return u \<Rightarrow>
                               (\<lparr>sku = sk, success = True, error = None, action = Updated,
                                 managerStock = Some mStock, shopifyStock = Some sStock,
                                 newStock = Some mStock,
                                 message = Some ''Stock actualizado exitosamente''\<rparr>, [wr]))))))"

subsection \<open>processInParallel\<close>

text \<open>
  \<^verbatim>\<open>array.slice(start, end)\<close>: a negative index counts from the end of the array, and
  both are clamped to the array.
\<close>

definition js_slice :: "'a list \<Rightarrow> int \<Rightarrow> int \<Rightarrow> 'a list" where
  "js_slice xs start fin =
     (let n = int (length xs);
          k = (if start < 0 then max (n + start) 0 else min start n);
          e = (if fin < 0 then max (n + fin) 0 else min fin n)
      in take (nat (e - k)) (drop (nat k) xs))"

text \<open>
  The filter that counts the rate-limit outcomes of a chunk:
  \<^verbatim>\<open>r?.error && (r.error.includes('Rate limit') || r.error.includes('429'))\<close>.
\<close>

definition isRateLimitResult :: "sync_result \<Rightarrow> bool" where
  "isRateLimitResult r =
     (case error r of
        None \<Rightarrow> False
      | Some e \<Rightarrow> e \<noteq> [] \<and> (js_includes e ''Rate limit'' \<or> js_includes e ''429''))"

text \<open>
  The variables of the loop: the index \<open>i\<close>, the concurrency, the results and the count
  of rate-limit errors; with them, how many times the processor has been called (the
  processor is a function of that number and of the element: what it answers depends
  on the outside world at the time of the call) and the delays awaited.
\<close>

record pip_state =
  pp_i :: int
  pp_concurrency :: int
  pp_results :: "sync_result list"
  pp_rateLimitErrors :: int
  pp_calls :: nat
  pp_sleeps :: "int list"

definition runChunk :: "(nat \<Rightarrow> string \<Rightarrow> sync_result) \<Rightarrow> nat \<Rightarrow> string list \<Rightarrow> sync_result list" where
  "runChunk processor n chunk = map (\<lambda>(k, x). processor (n + k) x) (enumerate 0 chunk)"

text \<open>
  The concurrency after a chunk with \<open>chunkRateLimitErrors\<close> rate-limit outcomes:
  \<^verbatim>\<open>Math.max(1, Math.floor(concurrency / 2))\<close> when there is one and that is smaller,
  the same concurrency otherwise.
\<close>

definition adjustConcurrency :: "int \<Rightarrow> nat \<Rightarrow> int" where
  "adjustConcurrency concurrency chunkRateLimitErrors =
     (if chunkRateLimitErrors > 0 then
        (let newConcurrency = max 1 (concurrency div 2)
         in if newConcurrency < concurrency then newConcurrency else concurrency)
      else concurrency)"

text \<open>
  One pass through the body of the \<^verbatim>\<open>for\<close> loop, with its increment
  \<^verbatim>\<open>i += concurrency\<close>, which reads the concurrency as the body left it. The processors
  passed by \<^verbatim>\<open>syncMultipleProducts\<close> catch every error, so \<^verbatim>\<open>Promise.all\<close> does not
  reject and the \<^verbatim>\<open>catch\<close> block of the loop is not entered.
\<close>

definition pip_iter :: "string list \<Rightarrow> (nat \<Rightarrow> string \<Rightarrow> sync_result) \<Rightarrow> pip_state \<Rightarrow> pip_state" where
  "pip_iter array processor st =
     (let concurrency = pp_concurrency st;
          chunk = js_slice array (pp_i st) (pp_i st + concurrency);
          chunkResults = runChunk processor (pp_calls st) chunk;
          chunkRateLimitErrors = length (filter isRateLimitResult chunkResults);
          rateLimitErrors = pp_rateLimitErrors st + int chunkRateLimitErrors;
          backoffMs = min 10000 (1500 + rateLimitErrors * 500);
          concurrency' = adjustConcurrency concurrency chunkRateLimitErrors
      in \<lparr>pp_i = pp_i st + concurrency',
          pp_concurrency = concurrency',
          pp_results = pp_results st @ chunkResults,
          pp_rateLimitErrors = rateLimitErrors,
          pp_calls = pp_calls st + length chunk,
          pp_sleeps = pp_sleeps st @ (if chunkRateLimitErrors > 0 then [backoffMs] else [])\<rparr>)"

text \<open>
  The loop. With a concurrency below one the index never passes the end of a non-empty
  array and the loop does not return: the value is then \<open>None\<close>.
\<close>

partial_function (option) pip_loop ::
  "string list \<Rightarrow> (nat \<Rightarrow> string \<Rightarrow> sync_result) \<Rightarrow> pip_state \<Rightarrow> pip_state option" where
  "pip_loop array processor st =
     (if pp_i st < int (length array) then pip_loop array processor (pip_iter array processor st)
      else Some st)"

declare pip_loop.simps [code]

definition pip_init :: "int \<Rightarrow> nat \<Rightarrow> pip_state" where
  "pip_init concurrency n =
     \<lparr>pp_i = 0, pp_concurrency = concurrency, pp_results = [], pp_rateLimitErrors = 0,
      pp_calls = n, pp_sleeps = []\<rparr>"

text \<open>
  \<open>processInParallel array processor concurrency n\<close> returns the results and the number
  of processor calls made so far, \<open>n\<close> being that number at the start.
\<close>

definition processInParallel ::
  "string list \<Rightarrow> (nat \<Rightarrow> string \<Rightarrow> sync_result) \<Rightarrow> int \<Rightarrow> nat \<Rightarrow> (sync_result list \<times> nat) option" where
  "processInParallel array processor concurrency n =
     map_option (\<lambda>st. (pp_results st, pp_calls st)) (pip_loop array processor (pip_init concurrency n))"

subsection \<open>syncMultipleProducts\<close>

record sync_summary =
  r_total :: nat
  r_updated :: int
  r_skipped :: int
  r_errors :: int
  r_noChange :: int
  r_details :: "sync_result list"

text \<open>
  \<^verbatim>\<open>options.concurrency || 5\<close>, limited to \<open>ABSOLUTE_MAX_CONCURRENCY = 50\<close>; above
  \<open>MAX_RECOMMENDED_CONCURRENCY = 20\<close> the code only warns.
\<close>

definition initialConcurrency :: "sync_options \<Rightarrow> int" where
  "initialConcurrency options =
     (let concurrency = (case o_concurrency options of
                           None \<Rightarrow> 5
                         | Some c \<Rightarrow> if c = 0 then 5 else c)
      in if concurrency > 50 then 50 else concurrency)"

definition retryConcurrency :: "int \<Rightarrow> int" where
  "retryConcurrency concurrency = max 2 (concurrency div 2)"

text \<open>The first tally of the results (\<^verbatim>\<open>results.details.forEach\<close>).\<close>

definition tally :: "sync_summary \<Rightarrow> sync_result \<Rightarrow> sync_summary" where
  "tally results r =
     (if success r then
        (if action r = Updated \<or> action r = WouldUpdate then
           results\<lparr>r_updated := r_updated results + 1\<rparr>
         else if action r = NoChange then results\<lparr>r_noChange := r_noChange results + 1\<rparr>
         else results\<lparr>r_skipped := r_skipped results + 1\<rparr>)
      else results\<lparr>r_errors := r_errors results + 1\<rparr>)"

text \<open>
  The filter that selects the results to retry (\<open>failedProducts\<close>, and
  \<open>remainingFailures\<close> after a retry pass).
\<close>

definition retryable :: "sync_result \<Rightarrow> bool" where
  "retryable r =
     (\<not> success r \<and> action r = Error \<and>
      (case error r of
         None \<Rightarrow> False
       | Some e \<Rightarrow> e \<noteq> [] \<and> \<not> js_includes e ''no encontrado'' \<and> \<not> js_includes e ''skipped''))"

definition failedProducts :: "sync_result list \<Rightarrow> sync_result list" where
  "failedProducts details = filter retryable details"

fun findIndex :: "('a \<Rightarrow> bool) \<Rightarrow> 'a list \<Rightarrow> nat option" where
  "findIndex p [] = None"
| "findIndex p (x # xs) = (if p x then Some 0 else map_option Suc (findIndex p xs))"

text \<open>What the retry loop does with one result of a retry pass.\<close>

definition applyRetryResult :: "sync_summary \<Rightarrow> sync_result \<Rightarrow> sync_summary" where
  "applyRetryResult results retryResult =
     (case findIndex (\<lambda>r. sku r = sku retryResult) (r_details results) of
        None \<Rightarrow> results
      | Some originalIndex \<Rightarrow>
          (let originalResult = r_details results ! originalIndex;
               wasError = (\<not> success originalResult \<and> action originalResult = Error);
               results1 = results\<lparr>r_details := (r_details results)[originalIndex := retryResult]\<rparr>
           in if success retryResult \<and> wasError then
                (let results2 = results1\<lparr>r_errors := r_errors results1 - 1\<rparr>
                 in if action retryResult = Updated \<or> action retryResult = WouldUpdate then
                      results2\<lparr>r_updated := r_updated results2 + 1\<rparr>
                    else if action retryResult = NoChange then
                      results2\<lparr>r_noChange := r_noChange results2 + 1\<rparr>
                    else if action retryResult = Skipped then
                      results2\<lparr>r_skipped := r_skipped results2 + 1\<rparr>
                    else results2)
              else results1))"

text \<open>
  The retry loop: \<open>retryAttempt\<close> counts from 1, \<open>remainingFailures\<close> are the results
  still to retry, \<open>n\<close> the number of worker calls made so far. It gives the summary and
  the results that still fail, or \<open>None\<close> when a pass does not return.
\<close>

function retryLoop ::
  "(nat \<Rightarrow> string \<Rightarrow> sync_result) \<Rightarrow> int \<Rightarrow> int \<Rightarrow> int \<Rightarrow> sync_result list \<Rightarrow> sync_summary \<Rightarrow> nat
     \<Rightarrow> (sync_summary \<times> sync_result list) option" where
  "retryLoop processor concurrency retriesMax retryAttempt remainingFailures results n =
     (if remainingFailures \<noteq> [] \<and> retryAttempt \<le> retriesMax then
        (case processInParallel (map sku remainingFailures) processor
                (retryConcurrency concurrency) n of
           None \<Rightarrow> None
         | Some (retryProcessedResults, n') \<Rightarrow>
             retryLoop processor concurrency retriesMax (retryAttempt + 1)
               (failedProducts retryProcessedResults)
               (foldl applyRetryResult results retryProcessedResults) n')
      else Some (results, remainingFailures))"
  by pat_completeness auto
termination
  by (relation "measure (\<lambda>(processor, concurrency, retriesMax, retryAttempt, remainingFailures,
          results, n). nat (retriesMax + 1 - retryAttempt))") auto

declare retryLoop.simps [simp del]

text \<open>
  What the calls made before the first pass give: \<^verbatim>\<open>verifyShopifyAuth\<close>,
  \<^verbatim>\<open>loadAllShopifyProducts\<close>, \<^verbatim>\<open>loadAllManagerProductsWithStock\<close> (asked unless
  \<open>useManagerBulk\<close> is false; its failure is caught and leaves no map) and
  \<^verbatim>\<open>getShopifyLocationId\<close> (asked unless the run is a dry run).
\<close>

record preload =
  pl_auth :: "unit thrown_or"
  pl_shopify :: "(string \<rightharpoonup> shopify_product) thrown_or"
  pl_manager :: "(string \<rightharpoonup> manager_product) thrown_or"
  pl_location :: "nat thrown_or"

definition worker ::
  "sync_options \<Rightarrow> (string \<rightharpoonup> shopify_product) \<Rightarrow> nat option
     \<Rightarrow> (string \<rightharpoonup> manager_product) option \<Rightarrow> (nat \<Rightarrow> world) \<Rightarrow> nat \<Rightarrow> string \<Rightarrow> sync_result" where
  "worker options shopifyProductsMap locationId managerProductsMap env n sk =
     fst (syncProductStock sk options (Some shopifyProductsMap) locationId managerProductsMap (env n))"

text \<open>
  The passes of a run, once the catalogues are loaded: the first pass over all keys, the
  tally, and the retry passes over the results that failed with an error worth a retry
  (none in a dry run). The result is \<open>None\<close> when a pass does not return.
\<close>

definition runPasses ::
  "string list \<Rightarrow> sync_options \<Rightarrow> (nat \<Rightarrow> string \<Rightarrow> sync_result) \<Rightarrow> int \<Rightarrow> sync_summary option" where
  "runPasses skus options processor concurrency =
     (let results = \<lparr>r_total = length skus, r_updated = 0, r_skipped = 0, r_errors = 0,
                      r_noChange = 0, r_details = []\<rparr>
      in case processInParallel skus processor concurrency 0 of
           None \<Rightarrow> None
         | Some (processedResults, n) \<Rightarrow>
             (let results1 = foldl tally (results\<lparr>r_details := processedResults\<rparr>) processedResults;
                  failedProds = failedProducts (r_details results1)
              in
              if failedProds \<noteq> [] \<and> \<not> o_dryRun options then
                (let retriesMax = (case o_maxRetries options of None \<Rightarrow> 3 | Some m \<Rightarrow> m)
                 in case retryLoop processor concurrency retriesMax 1 failedProds results1 n of
                      None \<Rightarrow> None
                    | Some (results2, remainingFailures) \<Rightarrow> Some results2)
              else Some results1))"

text \<open>
  \<open>syncMultipleProducts\<close> gives \<open>None\<close> when it does not return, \<open>Some (Inl msg)\<close> when
  it throws and \<open>Some (Inr results)\<close> when it returns the summary. \<open>env n\<close> is the
  outside world during the \<open>n\<close>-th call of the worker.
\<close>

definition syncMultipleProducts ::
  "string list \<Rightarrow> sync_options \<Rightarrow> preload \<Rightarrow> (nat \<Rightarrow> world) \<Rightarrow> (string + sync_summary) option" where
  "syncMultipleProducts skus options pl env =
     (let concurrency = initialConcurrency options
      in
      case pl_auth pl of
        Throw msg \<Rightarrow> Some (Inl msg)
      | Return u \<Rightarrow>
      (case pl_shopify pl of
        Throw msg \<Rightarrow> Some (Inl msg)
      | Return shopifyProductsMap \<Rightarrow>
      (let managerProductsMap =
             (if o_useManagerBulk options then
                (case pl_manager pl of Throw msg \<Rightarrow> None | Return m \<Rightarrow> Some m)
              else None)
       in
       case (if \<not> o_dryRun options then map_thrown_or Some (pl_location pl) else Return None) of
         Throw msg \<Rightarrow> Some (Inl msg)
       | Return locationId \<Rightarrow>
           map_option Inr
             (runPasses skus options
                (worker options shopifyProductsMap locationId managerProductsMap env)
                concurrency))))"

subsection \<open>The specification's wording of the concurrency rules\<close>

text \<open>
  The bounds of the stock synchroniser are the constants of the code: the floor 1 of
  \<^verbatim>\<open>Math.max(1, ...)\<close> and the ceiling \<open>ABSOLUTE_MAX_CONCURRENCY = 50\<close>. The next two
  definitions follow the words of the specification, not the code: the concurrency after
  a rate-limit signal, \<open>max(floor, round(prev / 2))\<close>, and the growth by one step, not
  above the ceiling, after a chunk without signal.
\<close>

definition inBounds :: "int \<Rightarrow> bool" where
  "inBounds c = (1 \<le> c \<and> c \<le> 50)"

definition spec_halved :: "int \<Rightarrow> int \<Rightarrow> int" where
  "spec_halved lo prev = max lo (round (real_of_int prev / 2))"


text \<open>The outcomes that \<open>processInParallel\<close> collects for the chunk it is about to run.\<close>

definition chunkOutcomes :: "string list \<Rightarrow> (nat \<Rightarrow> string \<Rightarrow> sync_result) \<Rightarrow> pip_state \<Rightarrow> sync_result list" where
  "chunkOutcomes array processor st =
     runChunk processor (pp_calls st) (js_slice array (pp_i st) (pp_i st + pp_concurrency st))"

text \<open>
  The shapes of the results that \<open>syncProductStock\<close> builds: a success is an update, a
  dry-run update or no change; a failure is skipped or an error.
\<close>

definition workerResult :: "sync_result \<Rightarrow> bool" where
  "workerResult r =
     (if success r then action r = Updated \<or> action r = WouldUpdate \<or> action r = NoChange
      else action r = Skipped \<or> action r = Error)"

section \<open>Concrete inputs\<close>

text \<open>
  The queue that \<open>server.js\<close> creates, two order webhooks, and the error of an HTTP 429
  answer whose Retry-After header asks for 60 seconds.
\<close>

definition serverQueue :: wq_state where
  "serverQueue =
     newWebhookQueue \<lparr>opt_cacheTTL = Some (24 * 60 * 60 * 1000), opt_minRequestDelay = Some 1500,
                      opt_maxRetries = Some 5, opt_baseRetryDelay = Some 5000,
                      opt_maxRetryDelay = None, opt_cleanupInterval = None\<rparr>"

definition order1001 :: webhook where
  "order1001 = \<lparr>wh_id = Some ''1001'', wh_order_id = None\<rparr>"

definition order1002 :: webhook where
  "order1002 = \<lparr>wh_id = Some ''1002'', wh_order_id = None\<rparr>"

definition error429 :: js_error where
  "error429 = \<lparr>err_status = Some 429, err_retry_after = Some ''60'',
               err_message = ''Request failed with status code 429''\<rparr>"

text \<open>The state of the server's queue once order 1001 has arrived at time 1000.\<close>

definition busyQueue :: wq_state where
  "busyQueue = snd (enqueue serverQueue order1001 ''orders/create'' ''axam.myshopify.com'' 1000)"

text \<open>
  The event of order 1001 as \<open>enqueue\<close> files it, and a processor that is answered 429
  on its first three calls and succeeds on the fourth; each call takes 200 ms.
\<close>

definition item1001 :: queue_item where
  "item1001 = \<lparr>orderId = ''1001'', webhookData = order1001, topic = ''orders/create'',
                shop = ''axam.myshopify.com'', enqueuedAt = 1000, retryCount = 0\<rparr>"

definition flakyProcessor :: "nat \<Rightarrow> queue_item \<Rightarrow> pw_outcome \<times> int" where
  "flakyProcessor k item =
     (if k < 3 then (setProcessor (Threw error429), 200)
      else (setProcessor (Returned \<lparr>p_success = Some True, p_retry = None, p_error = None\<rparr>), 200))"

text \<open>
  For the synchroniser: options with a given concurrency; a Shopify catalogue with the
  SKUs A to E (stock 3 each); a Manager+ catalogue with A to D (stock 7), E (stock 3)
  and G (stock 9), which Shopify does not have; a world in which every call succeeds
  (Manager+ knowing no product beyond its catalogue), and one in which Manager+ answers
  429 to every request.
\<close>

definition optionsWith :: "int option \<Rightarrow> sync_options" where
  "optionsWith c = \<lparr>o_dryRun = False, o_forceUpdate = False, o_concurrency = c,
                    o_maxRetries = None, o_retryDelay = None, o_useManagerBulk = True\<rparr>"

definition shopifyCatalogue :: "string \<rightharpoonup> shopify_product" where
  "shopifyCatalogue =
     (\<lambda>sk. if sk \<in> {''A'', ''B'', ''C'', ''D'', ''E''}
           then Some \<lparr>sp_sku = sk, inventoryItemId = 11, currentStock = 3\<rparr> else None)"

definition managerCatalogue :: "string \<rightharpoonup> manager_product" where
  "managerCatalogue =
     (\<lambda>sk. if sk \<in> {''A'', ''B'', ''C'', ''D''} then Some \<lparr>mp_sku = sk, mp_stock = 7\<rparr>
           else if sk = ''E'' then Some \<lparr>mp_sku = sk, mp_stock = 3\<rparr>
           else if sk = ''G'' then Some \<lparr>mp_sku = sk, mp_stock = 9\<rparr> else None)"

definition worldOk :: world where
  "worldOk = \<lparr>w_manager = (\<lambda>k. Ok None), w_shopifyLoad = Return shopifyCatalogue,
              w_location = Return 1, w_update = Ok ()\<rparr>"

definition world429 :: world where
  "world429 = \<lparr>w_manager = (\<lambda>k. Err error429), w_shopifyLoad = Return shopifyCatalogue,
               w_location = Return 1, w_update = Ok ()\<rparr>"

definition preloadOk :: preload where
  "preloadOk = \<lparr>pl_auth = Return (), pl_shopify = Return shopifyCatalogue,
                pl_manager = Return managerCatalogue, pl_location = Return 1\<rparr>"

text \<open>The same start, but the bulk load of Manager+ fails: every SKU is then fetched alone.\<close>

definition preloadNoBulk :: preload where
  "preloadNoBulk = preloadOk\<lparr>pl_manager := Throw ''timeout''\<rparr>"

text \<open>
  Six SKUs (F is in neither catalogue); the worker of a run whose bulk load succeeded, in
  a world where every call succeeds; and the worker of a run without bulk load, in a
  world where Manager+ answers 429.
\<close>

definition skusAF :: "string list" where
  "skusAF = [''A'', ''B'', ''C'', ''D'', ''E'', ''F'']"

definition healthyWorker :: "nat \<Rightarrow> string \<Rightarrow> sync_result" where
  "healthyWorker =
     worker (optionsWith None) shopifyCatalogue (Some 1) (Some managerCatalogue) (\<lambda>n. worldOk)"

definition rateLimitedWorker :: "nat \<Rightarrow> string \<Rightarrow> sync_result" where
  "rateLimitedWorker = worker (optionsWith None) shopifyCatalogue (Some 1) None (\<lambda>n. world429)"

text \<open>
  Options that force the update, in a real run and in a dry run; a result that no worker
  builds, a success with action \<open>skipped\<close>; and a summary that holds one error, for X.
\<close>

definition forcedOptions :: sync_options where
  "forcedOptions = (optionsWith None)\<lparr>o_forceUpdate := True\<rparr>"

definition forcedDryRun :: sync_options where
  "forcedDryRun = (optionsWith None)\<lparr>o_dryRun := True, o_forceUpdate := True\<rparr>"

definition strayResult :: sync_result where
  "strayResult = \<lparr>sku = ''X'', success = True, error = None, action = Skipped,
                  managerStock = None, shopifyStock = None, newStock = None, message = None\<rparr>"

definition oneError :: sync_summary where
  "oneError = \<lparr>r_total = 1, r_updated = 0, r_skipped = 0, r_errors = 1, r_noChange = 0,
               r_details = [errorResult ''X'' ''Network Error'']\<rparr>"

text \<open>
  A run over four keys with concurrency 4 and no bulk load of Manager+. Manager+ knows
  every key it is asked for (stock 7), except that it answers 429 during the calls 2
  and 4 of the worker and knows no product during call 8.
\<close>

definition worldFound :: world where
  "worldFound = worldOk\<lparr>w_manager := (\<lambda>k. Ok (Some \<lparr>mp_sku = ''-'', mp_stock = 7\<rparr>))\<rparr>"

definition flakyEnv :: "nat \<Rightarrow> world" where
  "flakyEnv n = (if n = 2 \<or> n = 4 then world429 else if n = 8 then worldOk else worldFound)"

definition overlapRun :: "(string + sync_summary) option" where
  "overlapRun =
     syncMultipleProducts [''A'', ''B'', ''C'', ''D''] (optionsWith (Some 4)) preloadNoBulk flakyEnv"

text \<open>Options that switch the retry passes off, as \<^verbatim>\<open>--no-retry\<close> does.\<close>

definition noRetryOptions :: sync_options where
  "noRetryOptions = (optionsWith None)\<lparr>o_maxRetries := Some 0\<rparr>"

section \<open>Properties of enqueue\<close>

lemma isOrderProcessed_queue [simp]: "queue (snd (isOrderProcessed s i now)) = queue s"
  by (simp add: isOrderProcessed_def split: option.splits)

lemma isOrderProcessed_isProcessing [simp]:
  "isProcessing (snd (isOrderProcessed s i now)) = isProcessing s"
  by (simp add: isOrderProcessed_def split: option.splits)

lemma isOrderProcessed_False_cache:
  "i \<noteq> [] \<Longrightarrow> \<not> fst (isOrderProcessed s i now) \<Longrightarrow>
   processedOrders (snd (isOrderProcessed s i now)) i = Some e \<Longrightarrow> status e = Failed"
  by (cases "status e") (auto simp: isOrderProcessed_def split: option.splits if_splits)

lemma isOrderProcessed_stats_irrelevant:
  "fst (isOrderProcessed (s\<lparr>stats := st\<rparr>) i now) = fst (isOrderProcessed s i now)"
  by (simp add: isOrderProcessed_def split: option.splits)

lemma isOrderProcessed_live:
  assumes "i \<noteq> []" "processedOrders s i = Some e"
    and "status e = Processing \<or> status e = Completed"
    and "now - timestamp e \<le> cacheTTL (config s)"
  shows "isOrderProcessed s i now = (True, s)"
  using assms by (auto simp: isOrderProcessed_def)

lemma processQueue_start_queue [simp]: "queue (processQueue_start s now) = queue s"
  by (simp add: processQueue_start_def markAsProcessing_def split: list.splits)

lemma processQueue_start_cache:
  "processedOrders (processQueue_start s now) i = Some e \<Longrightarrow>
   processedOrders s i = Some e \<or> status e = Processing"
  by (auto simp add: processQueue_start_def markAsProcessing_def split: list.splits if_splits)

text \<open>
  An identity that sits in the queue and that the cache does not report as processed is
  refused as already queued.
\<close>

lemma enqueue_already_queued:
  assumes "js_or (wh_id wd) (wh_order_id wd) = Some i" "i \<noteq> []"
    and "\<not> fst (isOrderProcessed s i now)"
    and "list_ex (\<lambda>item. orderId item = i) (queue s)"
  shows "queued (fst (enqueue s wd tp sh now)) = False \<and>
         reason (fst (enqueue s wd tp sh now)) = Some already_queued"
proof -
  let ?s1 = "s\<lparr>stats := (stats s)\<lparr>total := total (stats s) + 1\<rparr>\<rparr>"
  obtain dup s2 where d: "isOrderProcessed ?s1 i now = (dup, s2)" by fastforce
  have "\<not> dup" using d assms(3) isOrderProcessed_stats_irrelevant
    by (metis fst_conv)
  moreover have "queue s2 = queue s" using d isOrderProcessed_queue[of ?s1 i now] by simp
  ultimately show ?thesis using assms d by (simp add: enqueue_def)
qed

text \<open>
  What an accepted call leaves behind: the identity is in the queue, and its cache entry,
  if any, is not \<open>Completed\<close>.
\<close>

lemma enqueue_queued_shape:
  assumes "queued (fst (enqueue s wd tp sh now))"
  shows "\<exists>i. js_or (wh_id wd) (wh_order_id wd) = Some i \<and> i \<noteq> [] \<and>
             res_orderId (fst (enqueue s wd tp sh now)) = Some i \<and>
             list_ex (\<lambda>item. orderId item = i) (queue (snd (enqueue s wd tp sh now))) \<and>
             (\<forall>e. processedOrders (snd (enqueue s wd tp sh now)) i = Some e \<longrightarrow>
                  status e \<noteq> Completed)"
proof -
  obtain i where i: "js_or (wh_id wd) (wh_order_id wd) = Some i" "i \<noteq> []"
    using assms by (auto simp: enqueue_def split: option.splits if_splits)
  let ?s1 = "s\<lparr>stats := (stats s)\<lparr>total := total (stats s) + 1\<rparr>\<rparr>"
  obtain dup s2 where d: "isOrderProcessed ?s1 i now = (dup, s2)" by fastforce
  have nd: "\<not> dup" and nq: "\<not> list_ex (\<lambda>item. orderId item = i) (queue s2)"
    using assms i d by (auto simp: enqueue_def split: if_splits)
  have c: "\<And>e. processedOrders s2 i = Some e \<Longrightarrow> status e = Failed"
    using isOrderProcessed_False_cache[of i ?s1 now] d nd i by simp
  let ?it = "\<lparr>orderId = i, webhookData = wd, topic = tp, shop = sh,
              enqueuedAt = now, retryCount = 0\<rparr>"
  let ?s3 = "s2\<lparr>queue := queue s2 @ [?it]\<rparr>"
  have e: "enqueue s wd tp sh now =
     (\<lparr>queued = True, reason = None, res_orderId = Some i, cacheStatus = None,
       position = Some (length (queue (processQueue_start ?s3 now)))\<rparr>,
      processQueue_start ?s3 now)"
    using i d nd nq by (simp add: enqueue_def Let_def)
  have "\<And>e. processedOrders (processQueue_start ?s3 now) i = Some e \<Longrightarrow> status e \<noteq> Completed"
    using processQueue_start_cache[of ?s3 now i] c by fastforce
  then show ?thesis using i e by (simp add: list_ex_iff)
qed

text \<open>
  C1. A call whose payload carries the identity \<open>i\<close>, made while the cache holds an entry
  for \<open>i\<close> in state \<open>Processing\<close> or \<open>Completed\<close> whose age is within the TTL
  (\<open>now - timestamp \<le> cacheTTL\<close>), returns \<open>queued = false\<close> with reason
  \<open>duplicate\<close> and leaves the queue as it was. The identity is what \<open>enqueue\<close> reads from
  the payload (\<open>id\<close>, else \<open>order_id\<close>); it is a non-empty string, since a payload
  without one is refused before the cache is consulted.
\<close>

theorem enqueue_duplicate_within_ttl:
  assumes "js_or (wh_id wd) (wh_order_id wd) = Some i" and "i \<noteq> []"
    and "processedOrders s i = Some e"
    and "status e = Processing \<or> status e = Completed"
    and "now - timestamp e \<le> cacheTTL (config s)"
  shows "queued (fst (enqueue s wd tp sh now)) = False \<and>
         reason (fst (enqueue s wd tp sh now)) = Some duplicate \<and>
         queue (snd (enqueue s wd tp sh now)) = queue s \<and>
         processedOrders (snd (enqueue s wd tp sh now)) = processedOrders s"
proof -
  let ?s1 = "s\<lparr>stats := (stats s)\<lparr>total := total (stats s) + 1\<rparr>\<rparr>"
  have "isOrderProcessed ?s1 i now = (True, ?s1)"
    using assms by (intro isOrderProcessed_live[where e = e]) simp_all
  then show ?thesis using assms(1,2) by (simp add: enqueue_def)
qed

lemmas ex_defs =
  serverQueue_def order1001_def order1002_def error429_def busyQueue_def newWebhookQueue_def
  orDefault_def

lemmas enq_defs =
  enqueue_def js_or_def truthy_def isOrderProcessed_def processQueue_start_def
  markAsProcessing_def Let_def

theorem enqueue_duplicate_within_ttl_witness:
  "js_or (wh_id order1001) (wh_order_id order1001) = Some ''1001'' \<and>
   processedOrders busyQueue ''1001'' =
     Some \<lparr>timestamp = 1000, status = Processing, result = None, entry_error = None\<rparr> \<and>
   2000 - 1000 \<le> cacheTTL (config busyQueue) \<and>
   queued (fst (enqueue busyQueue order1001 ''orders/create'' ''axam.myshopify.com'' 2000)) = False \<and>
   reason (fst (enqueue busyQueue order1001 ''orders/create'' ''axam.myshopify.com'' 2000)) = Some duplicate \<and>
   queue (snd (enqueue busyQueue order1001 ''orders/create'' ''axam.myshopify.com'' 2000)) = queue busyQueue"
proof -
  have h1: "js_or (wh_id order1001) (wh_order_id order1001) = Some ''1001''"
    by (simp add: order1001_def js_or_def truthy_def)
  have h2: "processedOrders busyQueue ''1001'' =
     Some \<lparr>timestamp = 1000, status = Processing, result = None, entry_error = None\<rparr>"
    by (simp add: ex_defs enq_defs)
  have h3: "2000 - timestamp \<lparr>timestamp = 1000, status = Processing, result = None, entry_error = None\<rparr> \<le> cacheTTL (config busyQueue)"
    by (simp add: ex_defs enq_defs)
  show ?thesis
    using enqueue_duplicate_within_ttl[OF h1 _ h2 _ h3, of "''orders/create''" "''axam.myshopify.com''"] h1 h2 h3
    by simp
qed

text \<open>
  C9. A payload that carries neither an \<open>id\<close> nor an \<open>order_id\<close> field is answered with
  \<open>queued = false\<close> and reason \<open>missing_order_id\<close>, and the whole state (queue, cache,
  every counter, \<open>total\<close> included) is the state before the call.
\<close>

theorem enqueue_missing_order_id:
  assumes "wh_id wd = None" and "wh_order_id wd = None"
  shows "enqueue s wd tp sh now =
           (\<lparr>queued = False, reason = Some missing_order_id, res_orderId = None,
             cacheStatus = None, position = None\<rparr>, s)"
  using assms by (simp add: enqueue_def js_or_def truthy_def)

theorem enqueue_missing_order_id_witness:
  "wh_id \<lparr>wh_id = None, wh_order_id = None\<rparr> = None \<and>
   wh_order_id \<lparr>wh_id = None, wh_order_id = None\<rparr> = None \<and>
   enqueue busyQueue \<lparr>wh_id = None, wh_order_id = None\<rparr> ''orders/create'' ''axam.myshopify.com'' 2000 =
     (\<lparr>queued = False, reason = Some missing_order_id, res_orderId = None,
       cacheStatus = None, position = None\<rparr>, busyQueue)"
  using enqueue_missing_order_id[of "\<lparr>wh_id = None, wh_order_id = None\<rparr>" busyQueue
          "''orders/create''" "''axam.myshopify.com''" 2000]
  by simp

text \<open>
  C6. Two calls with the same identity: the first is accepted, and when the second comes
  the consumer has not started processing the event (its cache entry is not
  \<open>Processing\<close>). The second call is then refused with reason \<open>already_queued\<close>. On an
  idle queue the first call itself starts the consumer on the event, so the case arises
  when the consumer is busy with an earlier event or waits before a retry.
\<close>

theorem enqueue_twice_already_queued:
  assumes "js_or (wh_id wd) (wh_order_id wd) = Some i"
    and "js_or (wh_id wd') (wh_order_id wd') = Some i"
    and "enqueue s wd tp sh t1 = (r1, s1)" and "queued r1"
    and "map_option status (processedOrders s1 i) \<noteq> Some Processing"
  shows "queued (fst (enqueue s1 wd' tp' sh' t2)) = False \<and>
         reason (fst (enqueue s1 wd' tp' sh' t2)) = Some already_queued"
proof -
  from enqueue_queued_shape[of s wd tp sh t1] assms(1,3,4)
  have i: "i \<noteq> []" and q: "list_ex (\<lambda>item. orderId item = i) (queue s1)"
    and c: "\<And>e. processedOrders s1 i = Some e \<Longrightarrow> status e \<noteq> Completed"
    by auto
  have "\<not> fst (isOrderProcessed s1 i t2)"
    using c assms(5) by (auto simp: isOrderProcessed_def split: option.splits)
  then show ?thesis using enqueue_already_queued[OF assms(2) i _ q] by simp
qed

theorem enqueue_twice_already_queued_witness:
  "js_or (wh_id order1002) (wh_order_id order1002) = Some ''1002'' \<and>
   queued (fst (enqueue busyQueue order1002 ''orders/create'' ''axam.myshopify.com'' 1100)) \<and>
   map_option status (processedOrders
       (snd (enqueue busyQueue order1002 ''orders/create'' ''axam.myshopify.com'' 1100)) ''1002'')
     \<noteq> Some Processing \<and>
   reason (fst (enqueue (snd (enqueue busyQueue order1002 ''orders/create'' ''axam.myshopify.com'' 1100))
            order1002 ''orders/create'' ''axam.myshopify.com'' 1200)) = Some already_queued"
proof -
  let ?e = "enqueue busyQueue order1002 ''orders/create'' ''axam.myshopify.com'' 1100"
  have h1: "js_or (wh_id order1002) (wh_order_id order1002) = Some ''1002''"
    by (simp add: order1002_def js_or_def truthy_def)
  have h3: "?e = (fst ?e, snd ?e)" by simp
  have h4: "queued (fst ?e)" by (simp add: ex_defs enq_defs)
  have h5: "map_option status (processedOrders (snd ?e) ''1002'') \<noteq> Some Processing"
    by (simp add: ex_defs enq_defs)
  show ?thesis
    using enqueue_twice_already_queued[OF h1 h1 h3 h4 h5, of "''orders/create''" "''axam.myshopify.com''" 1200] h1 h4 h5
    by simp
qed


lemma processItem_retry:
  assumes "retryOutcome out" and "int (retryCount item) < maxRetries (config s)"
  shows "processItem s item rest out t0 t1 =
           (s\<lparr>queue := item\<lparr>retryCount := Suc (retryCount item)\<rparr> # rest,
              stats := (stats s)\<lparr>retries := retries (stats s) + 1\<rparr>,
              processedOrders := (processedOrders s)(orderId item := None)\<rparr>,
            [retryDelay (config s) (Suc (retryCount item)), minRequestDelay (config s)])"
  using assms
  by (cases out)
     (simp_all add: processItem_def scheduleRetry_def retryOutcome_def markAsProcessing_def Let_def)

lemma processItem_success:
  assumes "out = Resolved res" "pr_success res"
  shows "processItem s item rest out t0 t1 =
           ((markAsCompleted (markAsProcessing s (orderId item) t0) (orderId item) res t1)\<lparr>queue := rest\<rparr>,
            if rest \<noteq> [] then [minRequestDelay (config s)] else [])"
  using assms
  by (simp add: processItem_def markAsProcessing_def markAsCompleted_def Let_def)

lemma setProcessor_429: "err_status e = Some 429 \<Longrightarrow> retryOutcome (setProcessor (Threw e))"
  by (simp add: setProcessor_def retryOutcome_def)

lemma loop_step: "queue (cs_state c) \<noteq> [] \<Longrightarrow> processQueue_loop pw c = processQueue_loop pw (consumer_step pw c)"
  by (subst processQueue_loop.simps) simp

lemma loop_done: "queue (cs_state c) = [] \<Longrightarrow> processQueue_loop pw c = c\<lparr>cs_state := (cs_state c)\<lparr>isProcessing := False\<rparr>\<rparr>"
  by (subst processQueue_loop.simps) simp

lemma step_retry:
  assumes "retry_wait s item n k c" and "int k < maxRetries (config s)"
    and "retryOutcome (fst (pw (n + k) (item\<lparr>retryCount := k\<rparr>)))"
  shows "retry_wait s item n (Suc k) (consumer_step pw c) \<and>
         processedOrders (cs_state (consumer_step pw c)) (orderId item) = None"
proof -
  let ?it = "item\<lparr>retryCount := k\<rparr>"
  obtain out d where p: "pw (n + k) ?it = (out, d)" by fastforce
  have r: "retryOutcome out" using assms(3) p by simp
  have q: "queue (cs_state c) = [?it]" "cs_calls c = n + k" "config (cs_state c) = config s"
    "retries (stats (cs_state c)) = int k"
    using assms(1) by (simp_all add: retry_wait_def)
  have lt: "int (retryCount ?it) < maxRetries (config (cs_state c))" using assms(2) q by simp
  show ?thesis
    using q p processItem_retry[OF r lt, of "[]" "cs_clock c" "cs_clock c + d"]
    by (simp add: consumer_step_def retry_wait_def)
qed

lemma step_success:
  assumes "retry_wait s item n k c"
    and "successOutcome (fst (pw (n + k) (item\<lparr>retryCount := k\<rparr>)))"
  shows "queue (cs_state (consumer_step pw c)) = [] \<and>
         map_option status (processedOrders (cs_state (consumer_step pw c)) (orderId item)) = Some Completed \<and>
         retries (stats (cs_state (consumer_step pw c))) = int k"
proof -
  let ?it = "item\<lparr>retryCount := k\<rparr>"
  obtain out d where p: "pw (n + k) ?it = (out, d)" by fastforce
  obtain res where r: "out = Resolved res" "pr_success res"
    using assms(2) p by (cases out) (simp_all add: successOutcome_def)
  have q: "queue (cs_state c) = [?it]" "cs_calls c = n + k" "config (cs_state c) = config s"
    "retries (stats (cs_state c)) = int k"
    using assms(1) by (simp_all add: retry_wait_def)
  show ?thesis
    using q p processItem_success[OF r, of "cs_state c" ?it "[]" "cs_clock c" "cs_clock c + d"]
    by (simp add: consumer_step_def markAsCompleted_def markAsProcessing_def)
qed

text \<open>
  C7. An event alone in the queue, not yet retried, with \<open>maxRetries = 5\<close> and
  \<open>stats.retries = 0\<close>; the processor's outcome is read as a rate-limit failure on the
  first three attempts and as a success on the fourth. The loop then ends with the queue
  empty, the cache entry \<open>Completed\<close> and \<open>stats.retries = 3\<close>; and after each of the
  three failed attempts, in the state in which the loop sleeps before the retry, the
  cache entry is gone and the event is still the head of the queue.
\<close>

theorem retry_then_success:
  assumes "queue s = [item]" and "retryCount item = 0"
    and "maxRetries (config s) = 5" and "retries (stats s) = 0"
    and "\<forall>k<3. retryOutcome (fst (pw (n + k) (item\<lparr>retryCount := k\<rparr>)))"
    and "successOutcome (fst (pw (n + 3) (item\<lparr>retryCount := 3\<rparr>)))"
  shows "let c0 = \<lparr>cs_state = s, cs_clock = t, cs_calls = n, cs_sleeps = sl\<rparr>;
             final = cs_state (processQueue_loop pw c0)
         in map_option status (processedOrders final (orderId item)) = Some Completed \<and>
            retries (stats final) = 3 \<and> queue final = [] \<and> \<not> isProcessing final \<and>
            (\<forall>k\<in>{1, 2, 3}.
               processedOrders (cs_state ((consumer_step pw ^^ k) c0)) (orderId item) = None \<and>
               queue (cs_state ((consumer_step pw ^^ k) c0)) = [item\<lparr>retryCount := k\<rparr>] \<and>
               retries (stats (cs_state ((consumer_step pw ^^ k) c0))) = int k)"
proof -
  define c0 where "c0 = \<lparr>cs_state = s, cs_clock = t, cs_calls = n, cs_sleeps = sl\<rparr>"
  define c1 where "c1 = consumer_step pw c0"
  define c2 where "c2 = consumer_step pw c1"
  define c3 where "c3 = consumer_step pw c2"
  define c4 where "c4 = consumer_step pw c3"
  have i0: "item\<lparr>retryCount := 0\<rparr> = item" using assms(2) by simp
  have w0: "retry_wait s item n 0 c0"
    using assms(1,4) i0 by (simp add: retry_wait_def c0_def)
  have r: "\<And>k. k < 3 \<Longrightarrow> retryOutcome (fst (pw (n + k) (item\<lparr>retryCount := k\<rparr>)))"
    using assms(5) by blast
  have r0: "retryOutcome (fst (pw (n + 0) (item\<lparr>retryCount := 0\<rparr>)))" by (rule r) simp
  have r1: "retryOutcome (fst (pw (n + 1) (item\<lparr>retryCount := 1\<rparr>)))" by (rule r) simp
  have r2: "retryOutcome (fst (pw (n + 2) (item\<lparr>retryCount := 2\<rparr>)))" by (rule r) simp
  have w1: "retry_wait s item n 1 c1" and e1: "processedOrders (cs_state c1) (orderId item) = None"
    using step_retry[where pw = pw, OF w0 _ r0] assms(3) by (simp_all add: c1_def)
  have w2: "retry_wait s item n 2 c2" and e2: "processedOrders (cs_state c2) (orderId item) = None"
    using step_retry[where pw = pw, OF w1 _ r1] assms(3) by (simp_all add: c2_def numeral_2_eq_2)
  have w3: "retry_wait s item n 3 c3" and e3: "processedOrders (cs_state c3) (orderId item) = None"
    using step_retry[where pw = pw, OF w2 _ r2] assms(3) by (simp_all add: c3_def numeral_3_eq_3 numeral_2_eq_2)
  have f: "queue (cs_state c4) = []"
     "map_option status (processedOrders (cs_state c4) (orderId item)) = Some Completed"
     "retries (stats (cs_state c4)) = 3"
    using step_success[where pw = pw, OF w3 assms(6)] by (simp_all add: c4_def)
  have ne: "queue (cs_state c0) \<noteq> []" "queue (cs_state c1) \<noteq> []" "queue (cs_state c2) \<noteq> []"
     "queue (cs_state c3) \<noteq> []"
    using w0 w1 w2 w3 by (simp_all add: retry_wait_def)
  have "processQueue_loop pw c0 = processQueue_loop pw c4"
    using ne by (simp add: loop_step c1_def c2_def c3_def c4_def)
  then have fin: "processQueue_loop pw c0 = c4\<lparr>cs_state := (cs_state c4)\<lparr>isProcessing := False\<rparr>\<rparr>"
    using f(1) by (simp add: loop_done)
  have p1: "(consumer_step pw ^^ 1) c0 = c1" by (simp add: c1_def)
  have p2: "(consumer_step pw ^^ 2) c0 = c2" by (simp add: c1_def c2_def numeral_2_eq_2)
  have p3: "(consumer_step pw ^^ 3) c0 = c3" by (simp add: c1_def c2_def c3_def numeral_3_eq_3)
  show ?thesis
    unfolding Let_def c0_def[symmetric]
    using fin f w1 w2 w3 e1 e2 e3 p1 p2 p3
    by (simp add: retry_wait_def)
qed


lemma busyQueue_queue: "queue busyQueue = [item1001]"
  by (simp add: ex_defs enq_defs item1001_def)

lemma busyQueue_config:
  "config busyQueue =
     \<lparr>cacheTTL = 86400000, minRequestDelay = 1500, maxRetries = 5, baseRetryDelay = 5000,
      maxRetryDelay = 120000, cleanupInterval = 3600000\<rparr>"
  by (simp add: ex_defs enq_defs)

lemma busyQueue_stats: "retries (stats busyQueue) = 0"
  by (simp add: ex_defs enq_defs)

theorem retry_then_success_witness:
  "queue busyQueue = [item1001] \<and> retryCount item1001 = 0 \<and> maxRetries (config busyQueue) = 5 \<and>
   retries (stats busyQueue) = 0 \<and>
   (let final = cs_state (processQueue_loop flakyProcessor
                   \<lparr>cs_state = busyQueue, cs_clock = 1000, cs_calls = 0, cs_sleeps = []\<rparr>)
    in map_option status (processedOrders final ''1001'') = Some Completed \<and>
       retries (stats final) = 3 \<and> queue final = [])"
proof -
  have h5: "\<forall>k<3. retryOutcome (fst (flakyProcessor (0 + k) (item1001\<lparr>retryCount := k\<rparr>)))"
    by (simp add: flakyProcessor_def setProcessor_429 error429_def)
  have h6: "successOutcome (fst (flakyProcessor (0 + 3) (item1001\<lparr>retryCount := 3\<rparr>)))"
    by (simp add: flakyProcessor_def setProcessor_def successOutcome_def)
  have h2: "retryCount item1001 = 0" and o: "orderId item1001 = ''1001''" by (simp_all add: item1001_def)
  have h3: "maxRetries (config busyQueue) = 5" by (simp add: busyQueue_config)
  show ?thesis
    using retry_then_success[OF busyQueue_queue h2 h3 busyQueue_stats h5 h6, of 1000 "[]"]
      busyQueue_queue h2 h3 busyQueue_stats o
    by (simp add: Let_def)
qed

lemma managerRetryMs_header:
  "err_retry_after e = Some h \<Longrightarrow> h \<noteq> [] \<Longrightarrow> parseInt10 h = Some k \<Longrightarrow>
   managerRetryMs e attempt = Some (k * 1000)"
  by (simp add: managerRetryMs_def)

lemma managerRetryMs_fallback:
  "err_retry_after e = None \<Longrightarrow> managerRetryMs e attempt = Some (min 5000 (1500 * int attempt))"
  by (simp add: managerRetryMs_def)

lemma getManagerProductBySKU_429:
  "responses attempt = Err e \<Longrightarrow> err_status e = Some 429 \<Longrightarrow> attempt < 3 \<Longrightarrow>
   snd (getManagerProductBySKU responses sk attempt) =
     sleepMs (managerRetryMs e attempt) # snd (getManagerProductBySKU responses sk (attempt + 1))"
  by (subst getManagerProductBySKU.simps) (simp add: Let_def split: prod.splits)

text \<open>
  C2, as the code has it. For every attempt \<open>n \<ge> 1\<close> (the retry count after the
  increment) that the consumer of the queue retries, the delay it computes and sleeps is
  \<open>min (base * 2 ^ (n - 1)) cap\<close>, followed by the minimum delay between requests,
  whatever the failed outcome carries: the error of a processor that was answered 429 may
  hold any Retry-After header. Only \<open>getManagerProductBySKU\<close> reads a suggested wait: on a
  429 before its third attempt it waits the Retry-After header, in milliseconds,
  whenever the header is there (larger or not), and \<open>min 5000 (1500 * attempt)\<close>
  otherwise, which on the attempts that wait (1 and 2) is
  \<open>min (1500 * 2 ^ (attempt - 1)) 5000\<close>.
\<close>

theorem retry_delay_computed:
  "(1 \<le> n \<and> retryCount item = n - 1 \<and> int (retryCount item) < maxRetries (config s) \<and>
    (retryOutcome out \<or> out = setProcessor (Threw e) \<and> err_status e = Some 429)
    \<longrightarrow> snd (processItem s item rest out t0 t1) =
          [min (baseRetryDelay (config s) * 2 ^ (n - 1)) (maxRetryDelay (config s)),
           minRequestDelay (config s)]) \<and>
   (responses attempt = Err e \<and> err_status e = Some 429 \<and> attempt < 3
    \<longrightarrow> snd (getManagerProductBySKU responses sk attempt) =
          sleepMs (managerRetryMs e attempt) # snd (getManagerProductBySKU responses sk (attempt + 1))) \<and>
   (err_retry_after e = Some h \<and> h \<noteq> [] \<and> parseInt10 h = Some k
    \<longrightarrow> managerRetryMs e attempt = Some (k * 1000)) \<and>
   (err_retry_after e = None
    \<longrightarrow> managerRetryMs e attempt = Some (min 5000 (1500 * int attempt))) \<and>
   (err_retry_after e = None \<and> 1 \<le> attempt \<and> attempt < 3
    \<longrightarrow> managerRetryMs e attempt = Some (min (1500 * 2 ^ (attempt - 1)) 5000))"
proof (intro conjI impI)
  assume a: "1 \<le> n \<and> retryCount item = n - 1 \<and> int (retryCount item) < maxRetries (config s) \<and>
    (retryOutcome out \<or> out = setProcessor (Threw e) \<and> err_status e = Some 429)"
  then have r: "retryOutcome out" using setProcessor_429 by blast
  have n: "Suc (retryCount item) = n" using a by simp
  show "snd (processItem s item rest out t0 t1) =
          [min (baseRetryDelay (config s) * 2 ^ (n - 1)) (maxRetryDelay (config s)),
           minRequestDelay (config s)]"
    using processItem_retry[OF r, of item s rest t0 t1] a n by (simp add: retryDelay_def)
next
  assume "responses attempt = Err e \<and> err_status e = Some 429 \<and> attempt < 3"
  then show "snd (getManagerProductBySKU responses sk attempt) =
          sleepMs (managerRetryMs e attempt) # snd (getManagerProductBySKU responses sk (attempt + 1))"
    using getManagerProductBySKU_429 by blast
next
  assume "err_retry_after e = Some h \<and> h \<noteq> [] \<and> parseInt10 h = Some k"
  then show "managerRetryMs e attempt = Some (k * 1000)" using managerRetryMs_header by blast
next
  assume "err_retry_after e = None"
  then show "managerRetryMs e attempt = Some (min 5000 (1500 * int attempt))"
    by (rule managerRetryMs_fallback)
next
  assume a: "err_retry_after e = None \<and> 1 \<le> attempt \<and> attempt < 3"
  then have "attempt = 1 \<or> attempt = 2" by auto
  then show "managerRetryMs e attempt = Some (min (1500 * 2 ^ (attempt - 1)) 5000)"
    using a by (auto simp add: managerRetryMs_fallback)
qed

lemma parse60: "parseInt10 ''60'' = Some 60"
  by (simp add: parseInt10_def isWhiteSpace_def isDigit_def digitsValue_def Let_def)

text \<open>
  C2 as stated fails on the queue: the processor is answered 429 with a Retry-After of
  60 seconds (60000 ms, as \<open>getManagerProductBySKU\<close> reads the same header), the computed
  delay of the first retry is 5000 ms, and the consumer sleeps 5000 ms and the 1500 ms
  between requests.
\<close>

theorem retry_delay_ignores_suggested_wait:
  "managerRetryMs error429 1 = Some 60000 \<and>
   min (baseRetryDelay (config busyQueue) * 2 ^ (1 - 1)) (maxRetryDelay (config busyQueue)) = 5000 \<and>
   snd (processItem busyQueue item1001 [] (setProcessor (Threw error429)) 1000 1200) = [5000, 1500]"
  by (simp add: busyQueue_config error429_def managerRetryMs_header[OF _ _ parse60]
      processItem_retry[OF setProcessor_429] item1001_def retryDelay_def)

theorem retry_delay_computed_witness:
  "(1::nat) \<le> 1 \<and> retryCount item1001 = 1 - 1 \<and> int (retryCount item1001) < maxRetries (config busyQueue) \<and>
   err_status error429 = Some 429 \<and> err_retry_after error429 = Some ''60'' \<and> parseInt10 ''60'' = Some 60 \<and>
   snd (processItem busyQueue item1001 [] (setProcessor (Threw error429)) 1000 1200) = [5000, 1500] \<and>
   snd (getManagerProductBySKU (\<lambda>k. Err error429) ''SKU-1'' 1) =
     60000 # snd (getManagerProductBySKU (\<lambda>k. Err error429) ''SKU-1'' (1 + 1)) \<and>
   managerRetryMs error429 1 = Some 60000 \<and>
   managerRetryMs (error429\<lparr>err_retry_after := None\<rparr>) 2 = Some 3000"
proof -
  have h1: "retryCount item1001 = 1 - 1" "int (retryCount item1001) < maxRetries (config busyQueue)"
    by (simp_all add: item1001_def busyQueue_config)
  have h2: "err_status error429 = Some 429" "err_retry_after error429 = Some ''60''"
    by (simp_all add: error429_def)
  have m: "managerRetryMs error429 1 = Some 60000"
    using retry_delay_computed[of 1 item1001 busyQueue "setProcessor (Threw error429)" error429
        "[]" 1000 1200 "\<lambda>k. Err error429" 1 "''SKU-1''" "''60''" 60] h2 parse60 by simp
  show ?thesis
    using retry_delay_computed[of 1 item1001 busyQueue "setProcessor (Threw error429)" error429
        "[]" 1000 1200 "\<lambda>k. Err error429" 1 "''SKU-1''" "''60''" 60]
      retry_delay_computed[of 1 item1001 busyQueue "setProcessor (Threw error429)"
        "error429\<lparr>err_retry_after := None\<rparr>" "[]" 1000 1200 "\<lambda>k. Err error429" 2 "''SKU-1''" "''60''" 60]
      h1 h2 parse60 m
    by (simp add: busyQueue_config sleepMs_def)
qed

section \<open>Properties of the stock synchroniser\<close>

lemma pip_iter_concurrency:
  "pp_concurrency (pip_iter array processor st) =
     adjustConcurrency (pp_concurrency st)
       (length (filter isRateLimitResult (chunkOutcomes array processor st)))"
  by (simp add: pip_iter_def chunkOutcomes_def Let_def)

lemma adjustConcurrency_signal:
  "1 \<le> c \<Longrightarrow> 0 < k \<Longrightarrow> adjustConcurrency c k = max 1 (c div 2)"
  by (auto simp add: adjustConcurrency_def Let_def)


lemma adjustConcurrency_inBounds: "inBounds c \<Longrightarrow> inBounds (adjustConcurrency c k)"
  by (auto simp add: adjustConcurrency_def inBounds_def Let_def)

lemma filter_pos: "(\<exists>r\<in>set rs. P r) \<Longrightarrow> 0 < length (filter P rs)"
  by (induction rs) auto


lemma world429_throws:
  "fst (getManagerProductBySKU (w_manager world429) sk (Suc 0)) =
     Throw ''Rate limit alcanzado en Manager+ (429). Reduce la concurrencia.''"
  by (simp add: getManagerProductBySKU.simps world429_def error429_def Let_def split: prod.splits)

lemma rateLimitedWorker_result:
  "rateLimitedWorker n sk =
     errorResult sk ''Rate limit alcanzado en Manager+ (429). Reduce la concurrencia.''"
  by (simp add: rateLimitedWorker_def worker_def syncProductStock_def lookupManagerProduct_def
      world429_throws)

lemma rateLimit_message:
  "isRateLimitResult
     (errorResult sk ''Rate limit alcanzado en Manager+ (429). Reduce la concurrencia.'')"
  by (simp add: isRateLimitResult_def errorResult_def)

lemma chunk3_rateLimited:
  "chunkOutcomes skusAF rateLimitedWorker (pip_init 3 0) =
     [errorResult ''A'' ''Rate limit alcanzado en Manager+ (429). Reduce la concurrencia.'',
      errorResult ''B'' ''Rate limit alcanzado en Manager+ (429). Reduce la concurrencia.'',
      errorResult ''C'' ''Rate limit alcanzado en Manager+ (429). Reduce la concurrencia.'']"
  by (simp add: chunkOutcomes_def runChunk_def js_slice_def pip_init_def skusAF_def
      rateLimitedWorker_result Let_def)



lemma chunk3_signal:
  "list_ex isRateLimitResult (chunkOutcomes skusAF rateLimitedWorker (pip_init 3 0))"
  by (simp add: chunk3_rateLimited rateLimit_message)

lemma pip_init_concurrency [simp]: "pp_concurrency (pip_init c n) = c"
  by (simp add: pip_init_def)

text \<open>
  C3, as the code has it. When the outcomes of a chunk hold at least one rate-limit
  outcome and the concurrency is at least 1, the concurrency of the next chunk is
  \<open>max 1 (prev div 2)\<close>: the half is rounded down (\<^verbatim>\<open>Math.floor\<close>), and the floor is
  the constant 1.
\<close>

theorem halving_on_signal:
  assumes "1 \<le> pp_concurrency st"
    and "\<exists>r\<in>set (chunkOutcomes array processor st). isRateLimitResult r"
  shows "pp_concurrency (pip_iter array processor st) = max 1 (pp_concurrency st div 2)"
  using adjustConcurrency_signal[OF assms(1) filter_pos[OF assms(2)]]
  by (simp add: pip_iter_concurrency)

theorem halving_on_signal_witness:
  "1 \<le> pp_concurrency (pip_init 3 0) \<and>
   list_ex isRateLimitResult (chunkOutcomes skusAF rateLimitedWorker (pip_init 3 0)) \<and>
   pp_concurrency (pip_iter skusAF rateLimitedWorker (pip_init 3 0)) = 1"
proof -
  have h1: "1 \<le> pp_concurrency (pip_init 3 0)" by simp
  have h2: "\<exists>r\<in>set (chunkOutcomes skusAF rateLimitedWorker (pip_init 3 0)). isRateLimitResult r"
    using chunk3_signal by (simp add: list_ex_iff)
  show ?thesis
    using halving_on_signal[OF h1 h2] chunk3_signal by simp
qed

text \<open>
  C3 as stated fails: with concurrency 3 and a chunk of rate-limit outcomes the next
  concurrency is 1, where \<open>max(floor, round(3 / 2))\<close> is 2.
\<close>

theorem halving_is_not_rounding:
  "list_ex isRateLimitResult (chunkOutcomes skusAF rateLimitedWorker (pip_init 3 0)) \<and>
   pp_concurrency (pip_iter skusAF rateLimitedWorker (pip_init 3 0)) = 1 \<and>
   spec_halved 1 (pp_concurrency (pip_init 3 0)) = 2"
  using chunk3_signal
  by (simp add: pip_iter_concurrency adjustConcurrency_def filter_empty_conv list_ex_iff
      spec_halved_def round_def)




lemma iterates_inBounds:
  "inBounds c \<Longrightarrow> inBounds (pp_concurrency ((pip_iter array processor ^^ k) (pip_init c n)))"
  by (induction k) (simp_all add: pip_init_def pip_iter_concurrency adjustConcurrency_inBounds)

lemma initialConcurrency_inBounds:
  "(case o_concurrency options of None \<Rightarrow> True | Some c \<Rightarrow> 0 \<le> c) \<Longrightarrow>
   inBounds (initialConcurrency options)"
  by (auto simp add: initialConcurrency_def inBounds_def Let_def split: option.splits)

lemma retryConcurrency_inBounds: "inBounds c \<Longrightarrow> inBounds (retryConcurrency c)"
  by (auto simp add: retryConcurrency_def inBounds_def)

text \<open>
  For a requested concurrency that is absent or not negative (zero counts as absent),
  the concurrency is within \<open>1 .. 50\<close> at the start of the run, after every number
  \<open>k\<close> of chunks of the first pass, at the start of a retry pass
  (\<^verbatim>\<open>Math.max(2, Math.floor(concurrency / 2))\<close>) and after every number of chunks of a
  retry pass, whatever the keys and whatever the worker answers.
\<close>

lemma concurrency_bounds:
  assumes "case o_concurrency options of None \<Rightarrow> True | Some c \<Rightarrow> 0 \<le> c"
  shows "inBounds (initialConcurrency options) \<and>
         inBounds (pp_concurrency ((pip_iter array processor ^^ k)
                      (pip_init (initialConcurrency options) n))) \<and>
         inBounds (retryConcurrency (initialConcurrency options)) \<and>
         inBounds (pp_concurrency ((pip_iter array' processor' ^^ k')
                      (pip_init (retryConcurrency (initialConcurrency options)) n')))"
  using assms
  by (simp add: initialConcurrency_inBounds retryConcurrency_inBounds iterates_inBounds)

lemma concurrency_bounds_example:
  "(case o_concurrency (optionsWith (Some 7)) of None \<Rightarrow> True | Some c \<Rightarrow> 0 \<le> c) \<and>
   initialConcurrency (optionsWith (Some 7)) = 7 \<and>
   inBounds (pp_concurrency ((pip_iter skusAF rateLimitedWorker ^^ 2) (pip_init 7 0))) \<and>
   retryConcurrency 7 = 3 \<and>
   inBounds (pp_concurrency ((pip_iter skusAF rateLimitedWorker ^^ 2) (pip_init 3 6)))"
proof -
  have h: "case o_concurrency (optionsWith (Some 7)) of None \<Rightarrow> True | Some c \<Rightarrow> 0 \<le> c"
    by (simp add: optionsWith_def)
  have i: "initialConcurrency (optionsWith (Some 7)) = 7"
    by (simp add: initialConcurrency_def optionsWith_def)
  have r: "retryConcurrency 7 = 3" by (simp add: retryConcurrency_def)
  show ?thesis
    using concurrency_bounds[OF h, where array = skusAF and processor = rateLimitedWorker
        and k = 2 and n = 0 and array' = skusAF and processor' = rateLimitedWorker and k' = 2
        and n' = 6] h i r
    by simp
qed

subsection \<open>The summary of a run\<close>

lemma syncProductStock_workerResult:
  "workerResult (fst (syncProductStock sk options shopifyProductsMap locationId managerProductsMap w))"
  by (simp add: syncProductStock_def workerResult_def errorResult_def skippedResult_def Let_def
      split: thrown_or.splits option.splits)

lemma worker_workerResult: "workerResult (worker options shp loc mgr env n sk)"
  by (simp add: worker_def syncProductStock_workerResult)

lemma tally_failure: "\<not> success r \<Longrightarrow> tally results r = results\<lparr>r_errors := r_errors results + 1\<rparr>"
  by (simp add: tally_def)

lemma tally_skipped_changes: "r_skipped (tally results r) \<noteq> r_skipped results \<Longrightarrow> success r"
  by (auto simp add: tally_def split: if_splits)

lemma tally_skipped: "workerResult r \<Longrightarrow> r_skipped (tally results r) = r_skipped results"
  by (auto simp add: tally_def workerResult_def split: if_splits)

lemma foldl_tally_skipped:
  "\<forall>r\<in>set rs. workerResult r \<Longrightarrow> r_skipped (foldl tally results rs) = r_skipped results"
  by (induction rs arbitrary: results) (simp_all add: tally_skipped)

lemma applyRetryResult_skipped_changes:
  "r_skipped (applyRetryResult results r) \<noteq> r_skipped results \<Longrightarrow> success r \<and> action r = Skipped"
  by (auto simp add: applyRetryResult_def Let_def split: option.splits if_splits)

lemma applyRetryResult_skipped:
  assumes "workerResult r"
  shows "r_skipped (applyRetryResult results r) = r_skipped results"
proof (rule ccontr)
  assume "r_skipped (applyRetryResult results r) \<noteq> r_skipped results"
  then have "success r \<and> action r = Skipped" by (rule applyRetryResult_skipped_changes)
  then show False using assms by (simp add: workerResult_def)
qed

lemma foldl_applyRetryResult_skipped:
  "\<forall>r\<in>set rs. workerResult r \<Longrightarrow>
   r_skipped (foldl applyRetryResult results rs) = r_skipped results"
  by (induction rs arbitrary: results) (simp_all add: applyRetryResult_skipped)

lemma pip_iter_results:
  "pp_results (pip_iter array processor st) = pp_results st @ chunkOutcomes array processor st"
  by (simp add: pip_iter_def chunkOutcomes_def Let_def)

lemma runChunk_workerResult:
  "(\<And>n sk. workerResult (processor n sk)) \<Longrightarrow> \<forall>r\<in>set (runChunk processor n chunk). workerResult r"
  by (auto simp add: runChunk_def)

lemma pip_loop_invariant:
  fixes I :: "pip_state \<Rightarrow> bool"
  assumes "pip_loop array processor st = Some st'"
    and "I st" and "\<And>s. I s \<Longrightarrow> I (pip_iter array processor s)"
  shows "I st'"
proof -
  have "(\<forall>s'. I s' \<longrightarrow> I (pip_iter array processor s')) \<longrightarrow> I st \<longrightarrow> I st'"
  proof (rule pip_loop.raw_induct[where P = "\<lambda>a p s y. (\<forall>s'. I s' \<longrightarrow> I (pip_iter a p s')) \<longrightarrow> I s \<longrightarrow> I y",
        OF _ assms(1)])
    fix loop a p s y
    assume IH: "\<And>p s b y. loop p s b = Some y \<Longrightarrow>
                  (\<forall>s'. I s' \<longrightarrow> I (pip_iter p s s')) \<longrightarrow> I b \<longrightarrow> I y"
      and eq: "(if pp_i s < int (length a) then loop a p (pip_iter a p s) else Some s) = Some y"
    show "(\<forall>s'. I s' \<longrightarrow> I (pip_iter a p s')) \<longrightarrow> I s \<longrightarrow> I y"
    proof (cases "pp_i s < int (length a)")
      case True
      then have "loop a p (pip_iter a p s) = Some y" using eq by simp
      from IH[OF this] show ?thesis by blast
    next
      case False
      then show ?thesis using eq by simp
    qed
  qed
  then show ?thesis using assms(2,3) by blast
qed

lemma pip_loop_workerResult:
  assumes "pip_loop array processor st = Some st'"
    and "\<And>n sk. workerResult (processor n sk)"
    and "\<forall>r\<in>set (pp_results st). workerResult r"
  shows "\<forall>r\<in>set (pp_results st'). workerResult r"
proof (rule pip_loop_invariant[OF assms(1), where I = "\<lambda>s. \<forall>r\<in>set (pp_results s). workerResult r"])
  show "\<forall>r\<in>set (pp_results st). workerResult r" by (rule assms(3))
next
  fix s :: pip_state
  assume "\<forall>r\<in>set (pp_results s). workerResult r"
  then show "\<forall>r\<in>set (pp_results (pip_iter array processor s)). workerResult r"
    using runChunk_workerResult[of processor] assms(2)
    by (auto simp add: pip_iter_results chunkOutcomes_def)
qed

lemma processInParallel_workerResult:
  assumes "processInParallel array processor c n = Some (rs, n')"
    and "\<And>n sk. workerResult (processor n sk)"
  shows "\<forall>r\<in>set rs. workerResult r"
proof -
  obtain st' where s: "pip_loop array processor (pip_init c n) = Some st'" "rs = pp_results st'"
    using assms(1) by (auto simp add: processInParallel_def)
  show ?thesis
    using pip_loop_workerResult[OF s(1) assms(2)] s(2) by (simp add: pip_init_def)
qed

lemma adjustConcurrency_ge1: "1 \<le> c \<Longrightarrow> 1 \<le> adjustConcurrency c k"
  by (auto simp add: adjustConcurrency_def Let_def)

lemma pip_loop_returns:
  "1 \<le> pp_concurrency st \<Longrightarrow> \<exists>st'. pip_loop array processor st = Some st'"
proof (induction "nat (int (length array) - pp_i st)" arbitrary: st rule: less_induct)
  case less
  show ?case
  proof (cases "pp_i st < int (length array)")
    case False
    then show ?thesis by (simp add: pip_loop.simps)
  next
    case True
    let ?s = "pip_iter array processor st"
    have c: "1 \<le> pp_concurrency ?s"
      using less.prems by (simp add: pip_iter_concurrency adjustConcurrency_ge1)
    have i: "pp_i ?s = pp_i st + pp_concurrency ?s"
      by (simp add: pip_iter_def Let_def)
    have "nat (int (length array) - pp_i ?s) < nat (int (length array) - pp_i st)"
      using True c i by linarith
    from less.hyps[OF this c] obtain st' where "pip_loop array processor ?s = Some st'" by blast
    then show ?thesis using True by (subst pip_loop.simps) simp
  qed
qed

lemma processInParallel_returns:
  "1 \<le> c \<Longrightarrow> \<exists>rs n'. processInParallel array processor c n = Some (rs, n')"
  using pip_loop_returns[of "pip_init c n" array processor]
  by (auto simp add: processInParallel_def pip_init_def)

lemma retryConcurrency_ge: "1 \<le> retryConcurrency c"
  by (simp add: retryConcurrency_def)

lemma retryLoop_returns:
  "\<exists>res rem. retryLoop processor c m a remaining results n = Some (res, rem)"
proof (induction processor c m a remaining results n rule: retryLoop.induct)
  case (1 processor c m a remaining results n)
  show ?case
  proof (cases "remaining \<noteq> [] \<and> a \<le> m")
    case False
    then show ?thesis by (subst retryLoop.simps) auto
  next
    case True
    obtain rs n' where p: "processInParallel (map sku remaining) processor (retryConcurrency c) n = Some (rs, n')"
      using processInParallel_returns[OF retryConcurrency_ge] by blast
    from "1.IH"[OF True p refl]
    show ?thesis using True p by (subst retryLoop.simps) simp
  qed
qed

lemma retryLoop_skipped:
  assumes "\<And>n sk. workerResult (processor n sk)"
  shows "retryLoop processor c m a remaining results n = Some (res, rem) \<Longrightarrow>
         r_skipped res = r_skipped results"
  using assms
proof (induction processor c m a remaining results n rule: retryLoop.induct)
  case (1 processor c m a remaining results n)
  show ?case
  proof (cases "remaining \<noteq> [] \<and> a \<le> m")
    case False
    then show ?thesis using "1.prems"(1) by (subst (asm) retryLoop.simps) auto
  next
    case True
    obtain rs n' where p: "processInParallel (map sku remaining) processor (retryConcurrency c) n = Some (rs, n')"
      using processInParallel_returns[OF retryConcurrency_ge] by blast
    have w: "\<forall>r\<in>set rs. workerResult r"
      using processInParallel_workerResult[OF p] "1.prems"(2) by blast
    have "retryLoop processor c m (a + 1) (failedProducts rs) (foldl applyRetryResult results rs) n'
            = Some (res, rem)"
      using "1.prems"(1) True p by (subst (asm) retryLoop.simps) simp
    from "1.IH"[OF True p refl this "1.prems"(2)]
    show ?thesis using w by (simp add: foldl_applyRetryResult_skipped)
  qed
qed

lemma initialConcurrency_ge1:
  "(case o_concurrency options of None \<Rightarrow> True | Some c \<Rightarrow> 0 \<le> c) \<Longrightarrow>
   1 \<le> initialConcurrency options"
  using initialConcurrency_inBounds by (simp add: inBounds_def)

lemma runPasses_unfold:
  assumes "processInParallel skus processor c 0 = Some (rs, n)"
  shows "runPasses skus options processor c =
     (let results1 = foldl tally \<lparr>r_total = length skus, r_updated = 0, r_skipped = 0,
                       r_errors = 0, r_noChange = 0, r_details = rs\<rparr> rs
      in if failedProducts (r_details results1) \<noteq> [] \<and> \<not> o_dryRun options then
           map_option fst
             (retryLoop processor c (case o_maxRetries options of None \<Rightarrow> 3 | Some m \<Rightarrow> m) 1
                (failedProducts (r_details results1)) results1 n)
         else Some results1)"
  using assms by (simp add: runPasses_def Let_def split: option.splits)

lemma runPasses_skipped:
  assumes "runPasses skus options processor c = Some summary"
    and w: "\<And>n sk. workerResult (processor n sk)"
  shows "r_skipped summary = 0"
proof -
  obtain rs n where p: "processInParallel skus processor c 0 = Some (rs, n)"
    using assms(1) by (cases "processInParallel skus processor c 0") (auto simp add: runPasses_def)
  define results1 where "results1 = foldl tally \<lparr>r_total = length skus, r_updated = 0,
      r_skipped = 0, r_errors = 0, r_noChange = 0, r_details = rs\<rparr> rs"
  have s1: "r_skipped results1 = 0"
    using processInParallel_workerResult[OF p w]
    by (simp add: results1_def foldl_tally_skipped)
  show ?thesis
  proof (cases "failedProducts (r_details results1) \<noteq> [] \<and> \<not> o_dryRun options")
    case False
    then have "summary = results1"
      using assms(1) by (simp add: runPasses_unfold[OF p] results1_def[symmetric] Let_def split: if_splits)
    then show ?thesis using s1 by simp
  next
    case True
    then obtain rem where "retryLoop processor c (case o_maxRetries options of None \<Rightarrow> 3 | Some m \<Rightarrow> m) 1
        (failedProducts (r_details results1)) results1 n = Some (summary, rem)"
      using assms(1) by (auto simp add: runPasses_unfold[OF p] results1_def[symmetric] Let_def)
    from retryLoop_skipped[OF w this] show ?thesis using s1 by simp
  qed
qed

lemma runPasses_returns:
  assumes "1 \<le> c"
  shows "\<exists>summary. runPasses skus options processor c = Some summary"
proof -
  obtain rs n where p: "processInParallel skus processor c 0 = Some (rs, n)"
    using processInParallel_returns[OF assms] by blast
  define results1 where "results1 = foldl tally \<lparr>r_total = length skus, r_updated = 0,
      r_skipped = 0, r_errors = 0, r_noChange = 0, r_details = rs\<rparr> rs"
  obtain res rem where "retryLoop processor c (case o_maxRetries options of None \<Rightarrow> 3 | Some m \<Rightarrow> m) 1
        (failedProducts (r_details results1)) results1 n = Some (res, rem)"
    using retryLoop_returns by blast
  then show ?thesis
    by (simp add: runPasses_unfold[OF p] results1_def[symmetric] Let_def)
qed

lemma syncMultipleProducts_runPasses:
  assumes "syncMultipleProducts skus options pl env = Some (Inr summary)"
  shows "\<exists>shp loc mgr. runPasses skus options (worker options shp loc mgr env)
            (initialConcurrency options) = Some summary"
proof -
  obtain shp where s: "pl_auth pl = Return ()" "pl_shopify pl = Return shp"
    using assms
    by (cases "pl_auth pl"; cases "pl_shopify pl") (simp_all add: syncMultipleProducts_def)
  obtain loc where l:
    "(if \<not> o_dryRun options then map_thrown_or Some (pl_location pl) else Return None) = Return loc"
    using assms s
    by (cases "if \<not> o_dryRun options then map_thrown_or Some (pl_location pl) else Return None")
       (simp_all add: syncMultipleProducts_def Let_def)
  show ?thesis
    using assms s l by (auto simp add: syncMultipleProducts_def Let_def)
qed

lemma syncMultipleProducts_skipped:
  assumes "syncMultipleProducts skus options pl env = Some (Inr summary)"
  shows "r_skipped summary = 0"
proof -
  obtain shp loc mgr where
    "runPasses skus options (worker options shp loc mgr env) (initialConcurrency options) = Some summary"
    using syncMultipleProducts_runPasses[OF assms] by blast
  then show ?thesis by (rule runPasses_skipped) (rule worker_workerResult)
qed

lemma syncMultipleProducts_returns:
  assumes "case o_concurrency options of None \<Rightarrow> True | Some c \<Rightarrow> 0 \<le> c"
  shows "syncMultipleProducts skus options pl env \<noteq> None"
proof -
  have c: "1 \<le> initialConcurrency options" using assms by (rule initialConcurrency_ge1)
  have "\<And>processor. runPasses skus options processor (initialConcurrency options) \<noteq> None"
    using runPasses_returns[OF c] by (metis option.distinct(1))
  then show ?thesis
    by (simp add: syncMultipleProducts_def Let_def split: thrown_or.splits)
qed

text \<open>
  A run that makes no retry pass (a dry run, or \<open>maxRetries\<close> not above zero) returns the
  first tally: its \<open>errors\<close> is the number of failed results of its details.
\<close>

lemma tally_errors:
  "r_errors (tally results r) = r_errors results + (if success r then 0 else 1)"
  by (simp add: tally_def)

lemma tally_details: "r_details (tally results r) = r_details results"
  by (simp add: tally_def)

lemma foldl_tally_errors:
  "r_errors (foldl tally results rs) =
     r_errors results + int (length (filter (\<lambda>r. \<not> success r) rs))"
  by (induction rs arbitrary: results) (simp_all add: tally_errors)

lemma foldl_tally_details: "r_details (foldl tally results rs) = r_details results"
  by (induction rs arbitrary: results) (simp_all add: tally_details)

lemma retryLoop_no_pass:
  "m \<le> 0 \<Longrightarrow> retryLoop processor c m 1 remaining results n = Some (results, remaining)"
  by (subst retryLoop.simps) simp

lemma runPasses_no_retry:
  assumes "runPasses skus options processor c = Some summary"
    and "o_dryRun options \<or> (\<exists>m. o_maxRetries options = Some m \<and> m \<le> 0)"
  shows "r_errors summary = int (length (filter (\<lambda>r. \<not> success r) (r_details summary)))"
proof -
  obtain rs n where p: "processInParallel skus processor c 0 = Some (rs, n)"
    using assms(1) by (cases "processInParallel skus processor c 0") (auto simp add: runPasses_def)
  define results1 where "results1 = foldl tally \<lparr>r_total = length skus, r_updated = 0,
      r_skipped = 0, r_errors = 0, r_noChange = 0, r_details = rs\<rparr> rs"
  have e: "r_errors results1 = int (length (filter (\<lambda>r. \<not> success r) (r_details results1)))"
    by (simp add: results1_def foldl_tally_errors foldl_tally_details)
  have "summary = results1"
  proof (cases "o_dryRun options")
    case True
    then show ?thesis
      using assms(1) by (simp add: runPasses_unfold[OF p] results1_def[symmetric] Let_def)
  next
    case False
    then obtain m where m: "o_maxRetries options = Some m" "m \<le> 0" using assms(2) by blast
    show ?thesis
      using assms(1) m
      by (simp add: runPasses_unfold[OF p] results1_def[symmetric] Let_def
          retryLoop_no_pass split: if_splits)
  qed
  then show ?thesis using e by simp
qed

lemma syncMultipleProducts_no_retry:
  assumes "syncMultipleProducts skus options pl env = Some (Inr summary)"
    and "o_dryRun options \<or> (\<exists>m. o_maxRetries options = Some m \<and> m \<le> 0)"
  shows "r_errors summary = int (length (filter (\<lambda>r. \<not> success r) (r_details summary)))"
proof -
  obtain shp loc mgr where
    "runPasses skus options (worker options shp loc mgr env) (initialConcurrency options) = Some summary"
    using syncMultipleProducts_runPasses[OF assms(1)] by blast
  then show ?thesis using assms(2) by (rule runPasses_no_retry)
qed

text \<open>
  A run with a concurrency below one over a non-empty key list does not return.
\<close>

lemma adjustConcurrency_nonpositive: "c \<le> 0 \<Longrightarrow> adjustConcurrency c k = c"
  by (simp add: adjustConcurrency_def Let_def)

lemma pip_loop_stuck:
  assumes "pip_loop array processor st = Some st'" and "pp_concurrency st \<le> 0"
  shows "int (length array) \<le> pp_i st"
proof -
  have "pp_concurrency st \<le> 0 \<longrightarrow> int (length array) \<le> pp_i st"
  proof (rule pip_loop.raw_induct[where P = "\<lambda>a p s y. pp_concurrency s \<le> 0 \<longrightarrow> int (length a) \<le> pp_i s",
        OF _ assms(1)])
    fix loop a p s y
    assume IH: "\<And>p s b y. loop p s b = Some y \<Longrightarrow> pp_concurrency b \<le> 0 \<longrightarrow> int (length p) \<le> pp_i b"
      and eq: "(if pp_i s < int (length a) then loop a p (pip_iter a p s) else Some s) = Some y"
    show "pp_concurrency s \<le> 0 \<longrightarrow> int (length a) \<le> pp_i s"
    proof (intro impI, rule ccontr)
      assume c: "pp_concurrency s \<le> 0" and "\<not> int (length a) \<le> pp_i s"
      then have lt: "pp_i s < int (length a)" by simp
      then have "loop a p (pip_iter a p s) = Some y" using eq by simp
      from IH[OF this] have "pp_concurrency (pip_iter a p s) \<le> 0 \<longrightarrow> int (length a) \<le> pp_i (pip_iter a p s)" .
      moreover have "pp_concurrency (pip_iter a p s) = pp_concurrency s"
        using c by (simp add: pip_iter_concurrency adjustConcurrency_nonpositive)
      moreover have "pp_i (pip_iter a p s) = pp_i s + pp_concurrency (pip_iter a p s)"
        by (simp add: pip_iter_def Let_def)
      ultimately show False using c lt by simp
    qed
  qed
  then show ?thesis using assms(2) by simp
qed

lemma processInParallel_diverges:
  "c \<le> 0 \<Longrightarrow> array \<noteq> [] \<Longrightarrow> processInParallel array processor c n = None"
  using pip_loop_stuck[of array processor "pip_init c n"]
  by (cases "pip_loop array processor (pip_init c n)")
     (auto simp add: processInParallel_def pip_init_def)

lemma negative_request_never_returns:
  assumes "c < 0" and "skus \<noteq> []"
  shows "syncMultipleProducts skus (optionsWith (Some c)) preloadOk env = None"
proof -
  have i: "initialConcurrency (optionsWith (Some c)) = c"
    using assms(1) by (simp add: initialConcurrency_def optionsWith_def)
  have o: "\<not> o_dryRun (optionsWith (Some c))" by (simp add: optionsWith_def)
  have "c \<le> 0" using assms(1) by simp
  from processInParallel_diverges[OF this assms(2)] show ?thesis
    by (simp add: syncMultipleProducts_def runPasses_def preloadOk_def i o Let_def)
qed

text \<open>
  C5 fails on the code. \<open>syncMultipleProducts\<close> limits the requested concurrency from
  above only: a request of \<open>-3\<close> (the scheduler passes on what \<^verbatim>\<open>parseInt\<close> reads from
  the environment) is taken as it is, below the floor 1. With the six keys A to F the
  index of the chunk loop then never passes the end and the run does not return; with no
  keys it returns its summary, having held the concurrency \<open>-3\<close> throughout.
\<close>

theorem negative_concurrency_breaks_bounds:
  "initialConcurrency (optionsWith (Some (- 3))) = - 3 \<and>
   \<not> inBounds (initialConcurrency (optionsWith (Some (- 3)))) \<and>
   syncMultipleProducts skusAF (optionsWith (Some (- 3))) preloadOk (\<lambda>n. worldOk) = None \<and>
   syncMultipleProducts [] (optionsWith (Some (- 3))) preloadOk (\<lambda>n. worldOk) =
     Some (Inr \<lparr>r_total = 0, r_updated = 0, r_skipped = 0, r_errors = 0, r_noChange = 0,
                r_details = []\<rparr>)"
proof -
  have i: "initialConcurrency (optionsWith (Some (- 3))) = - 3"
    by (simp add: initialConcurrency_def optionsWith_def)
  have n: "syncMultipleProducts skusAF (optionsWith (Some (- 3))) preloadOk (\<lambda>n. worldOk) = None"
    by (rule negative_request_never_returns) (simp_all add: skusAF_def)
  have e: "syncMultipleProducts [] (optionsWith (Some (- 3))) preloadOk (\<lambda>n. worldOk) =
     Some (Inr \<lparr>r_total = 0, r_updated = 0, r_skipped = 0, r_errors = 0, r_noChange = 0,
                r_details = []\<rparr>)"
    by (simp add: initialConcurrency_def syncMultipleProducts_def runPasses_def preloadOk_def
        processInParallel_def pip_loop.simps pip_init_def failedProducts_def optionsWith_def
        Let_def)
  show ?thesis using i n e by (simp add: inBounds_def)
qed

subsection \<open>Skipped items, unchanged items and the counters\<close>

lemma skipped_is_failure:
  "action (fst (syncProductStock sk options shp loc mgr w)) = Skipped \<Longrightarrow>
   \<not> success (fst (syncProductStock sk options shp loc mgr w))"
  using syncProductStock_workerResult[of sk options shp loc mgr w]
  by (auto simp add: workerResult_def split: if_splits)

text \<open>
  What the code does hold about skipped results. A result of the worker with action
  \<open>skipped\<close> has \<open>success = false\<close>, and the tally of the first pass adds it to
  \<open>errors\<close>; in a run that makes no retry pass (a dry run, or \<open>maxRetries\<close> not above
  zero) the returned \<open>errors\<close> is the number of results with \<open>success = false\<close> in the
  returned details, the skipped ones among them. The \<open>skipped\<close> counter moves only for a
  result with \<open>success = true\<close>, in the first tally and in the retry loop alike; so every
  summary that \<open>syncMultipleProducts\<close> returns has \<open>skipped = 0\<close>. And it does return
  one (or throws) whenever the requested concurrency is absent or not negative.
\<close>

lemma skipped_counted_as_errors:
  "(action (worker options shp loc mgr env n sk) = Skipped \<longrightarrow>
      \<not> success (worker options shp loc mgr env n sk) \<and>
      tally results (worker options shp loc mgr env n sk) =
        results\<lparr>r_errors := r_errors results + 1\<rparr>) \<and>
   (syncMultipleProducts skus options pl env = Some (Inr summary) \<and>
    (o_dryRun options \<or> (\<exists>m. o_maxRetries options = Some m \<and> m \<le> 0)) \<longrightarrow>
      r_errors summary = int (length (filter (\<lambda>r. \<not> success r) (r_details summary)))) \<and>
   (r_skipped (tally results r) \<noteq> r_skipped results \<longrightarrow> success r) \<and>
   (r_skipped (applyRetryResult results r) \<noteq> r_skipped results \<longrightarrow> success r) \<and>
   (syncMultipleProducts skus options pl env = Some (Inr summary) \<longrightarrow> r_skipped summary = 0) \<and>
   ((case o_concurrency options of None \<Rightarrow> True | Some c \<Rightarrow> 0 \<le> c) \<longrightarrow>
      syncMultipleProducts skus options pl env \<noteq> None)"
proof (intro conjI impI)
  assume a: "action (worker options shp loc mgr env n sk) = Skipped"
  then show f: "\<not> success (worker options shp loc mgr env n sk)"
    unfolding worker_def by (rule skipped_is_failure)
  show "tally results (worker options shp loc mgr env n sk) =
        results\<lparr>r_errors := r_errors results + 1\<rparr>"
    using f by (rule tally_failure)
next
  assume "syncMultipleProducts skus options pl env = Some (Inr summary) \<and>
    (o_dryRun options \<or> (\<exists>m. o_maxRetries options = Some m \<and> m \<le> 0))"
  then show "r_errors summary = int (length (filter (\<lambda>r. \<not> success r) (r_details summary)))"
    using syncMultipleProducts_no_retry by blast
next
  assume "r_skipped (tally results r) \<noteq> r_skipped results"
  then show "success r" by (rule tally_skipped_changes)
next
  assume "r_skipped (applyRetryResult results r) \<noteq> r_skipped results"
  then show "success r" using applyRetryResult_skipped_changes by blast
next
  assume "syncMultipleProducts skus options pl env = Some (Inr summary)"
  then show "r_skipped summary = 0" by (rule syncMultipleProducts_skipped)
next
  assume "case o_concurrency options of None \<Rightarrow> True | Some c \<Rightarrow> 0 \<le> c"
  then show "syncMultipleProducts skus options pl env \<noteq> None"
    by (rule syncMultipleProducts_returns)
qed

lemma run_example:
  "syncMultipleProducts skusAF noRetryOptions preloadOk (\<lambda>n. worldOk) =
   Some (Inr \<lparr>r_total = 6, r_updated = 4, r_skipped = 0, r_errors = 1,
          r_noChange = 1,
          r_details =
            [\<lparr>sku = ''A'', success = True, error = None, action = Updated,
                managerStock = Some 7, shopifyStock = Some 3,
                newStock = Some 7,
                message = Some ''Stock actualizado exitosamente''\<rparr>,
             \<lparr>sku = ''B'', success = True, error = None, action = Updated,
                managerStock = Some 7, shopifyStock = Some 3,
                newStock = Some 7,
                message = Some ''Stock actualizado exitosamente''\<rparr>,
             \<lparr>sku = ''C'', success = True, error = None, action = Updated,
                managerStock = Some 7, shopifyStock = Some 3,
                newStock = Some 7,
                message = Some ''Stock actualizado exitosamente''\<rparr>,
             \<lparr>sku = ''D'', success = True, error = None, action = Updated,
                managerStock = Some 7, shopifyStock = Some 3,
                newStock = Some 7,
                message = Some ''Stock actualizado exitosamente''\<rparr>,
             \<lparr>sku = ''E'', success = True, error = None, action = NoChange,
                managerStock = Some 3, shopifyStock = Some 3,
                newStock = None,
                message = Some ''Stocks ya estan sincronizados''\<rparr>,
             \<lparr>sku = ''F'', success = False,
                error = Some ''Producto no encontrado en Manager+'',
                action = Skipped, managerStock = None, shopifyStock = None,
                newStock = None, message = None\<rparr>]\<rparr>)"
  by code_simp

lemma healthyWorker_F:
  "healthyWorker 5 ''F'' = skippedResult ''F'' ''Producto no encontrado en Manager+''"
  by (simp add: healthyWorker_def worker_def syncProductStock_def lookupManagerProduct_def
      managerCatalogue_def worldOk_def getManagerProductBySKU.simps)

lemma skipped_counted_as_errors_example:
  "action (healthyWorker 5 ''F'') = Skipped \<and> \<not> success (healthyWorker 5 ''F'') \<and>
   r_skipped (tally oneError strayResult) \<noteq> r_skipped oneError \<and>
   r_skipped (applyRetryResult oneError strayResult) \<noteq> r_skipped oneError \<and>
   success strayResult \<and>
   (case o_concurrency noRetryOptions of None \<Rightarrow> True | Some c \<Rightarrow> 0 \<le> c) \<and>
   o_maxRetries noRetryOptions = Some 0 \<and>
   (\<exists>summary. syncMultipleProducts skusAF noRetryOptions preloadOk (\<lambda>n. worldOk) =
                 Some (Inr summary) \<and>
              r_skipped summary = 0 \<and> r_errors summary = 1 \<and>
              int (length (filter (\<lambda>r. \<not> success r) (r_details summary))) = 1 \<and>
              healthyWorker 5 ''F'' \<in> set (r_details summary))"
proof -
  have a: "action (healthyWorker 5 ''F'') = Skipped"
    by (simp add: healthyWorker_F skippedResult_def)
  have c: "case o_concurrency noRetryOptions of None \<Rightarrow> True | Some c \<Rightarrow> 0 \<le> c"
    "o_maxRetries noRetryOptions = Some 0"
    by (simp_all add: noRetryOptions_def optionsWith_def)
  have s1: "r_skipped (tally oneError strayResult) \<noteq> r_skipped oneError"
    by (simp add: tally_def strayResult_def oneError_def)
  have s2: "r_skipped (applyRetryResult oneError strayResult) \<noteq> r_skipped oneError"
    by (simp add: applyRetryResult_def strayResult_def oneError_def errorResult_def Let_def)
  note t = skipped_counted_as_errors[where options = "optionsWith None" and shp = shopifyCatalogue
      and loc = "Some 1" and mgr = "Some managerCatalogue" and env = "\<lambda>n. worldOk" and n = 5
      and sk = "''F''" and results = oneError and r = strayResult, folded healthyWorker_def]
  note u = skipped_counted_as_errors[where options = noRetryOptions and skus = skusAF
      and pl = preloadOk and env = "\<lambda>n. worldOk" and results = oneError and r = strayResult]
  show ?thesis
    using t u a c s1 s2 run_example by (simp add: healthyWorker_F skippedResult_def)
qed

text \<open>
  C10 fails on the code: a summary that \<open>syncMultipleProducts\<close> returns can hold a
  result with action \<open>skipped\<close> that \<open>errors\<close> does not count. Four keys A, B, C, D
  are run with concurrency 4 and no bulk map of Manager+. C is answered 429 in the first
  chunk (call 2); the concurrency drops to 2 and the index moves on by that 2, so C and D
  are run again, and C is answered 429 again (call 4); the concurrency drops to 1, the
  index moves on by 1, and D is run a third time. The first tally has seven results and
  \<open>errors = 2\<close>. The retry pass runs C twice: it is updated (call 7), which takes one off
  \<open>errors\<close>, then Manager+ has no data for it (call 8) and it is skipped; both results
  replace the first entry for C, and the second, replacing a success, changes no counter
  (the comment there: the error is already counted). The summary returned holds two
  failed results, C skipped and C error, and \<open>errors = 1\<close>.
\<close>

theorem returned_errors_miss_skipped:
  "map_option (map_sum id (\<lambda>s. (r_errors s, length (filter (\<lambda>r. \<not> success r) (r_details s)),
       map (\<lambda>r. (sku r, action r, success r)) (r_details s)))) overlapRun =
   Some (Inr (1, 2, [(''A'', Updated, True), (''B'', Updated, True), (''C'', Skipped, False),
                     (''D'', Updated, True), (''C'', Error, False), (''D'', Updated, True),
                     (''D'', Updated, True)]))"
  by code_simp

lemma lookupManagerProduct_absent:
  assumes "mgr = None \<or> (\<exists>m. mgr = Some m \<and> m sk = None)"
    and "w_manager w 1 = Ok None \<or> (\<exists>e. w_manager w 1 = Err e \<and> err_status e = Some 404)"
  shows "lookupManagerProduct mgr w sk = Return None"
  using assms
  by (auto simp add: lookupManagerProduct_def getManagerProductBySKU.simps)

lemma getShopifyProductStockBySKU_absent:
  "shp = Some m \<Longrightarrow> m sk = None \<Longrightarrow> getShopifyProductStockBySKU sk shp w = Return None"
  by (simp add: getShopifyProductStockBySKU_def)

lemma skipped_not_retryable: "action r = Skipped \<Longrightarrow> \<not> retryable r"
  by (simp add: retryable_def)

text \<open>
  C8, as the code has it. When the Manager+ lookup yields no product (the key is in no
  bulk map and Manager+ answers the request for it with no data or with 404), or yields
  one while the Shopify catalogue has no such key, the outcome is \<open>skipped\<close>; a
  \<open>skipped\<close> outcome is never among the results selected for a retry pass. When both
  have the key and the stocks are equal, the outcome is \<open>no_change\<close> and nothing is
  written, unless \<open>forceUpdate\<close> is set: then the item is treated as one whose stocks
  differ, which in a dry run is reported as \<open>would_update\<close> with nothing written, and
  otherwise is written to Shopify with the Manager+ stock (\<open>updated\<close> when Shopify
  accepts the write).
\<close>

theorem skipped_and_no_change:
  "(lookupManagerProduct mgr w sk = Return None \<longrightarrow>
      fst (syncProductStock sk options shp loc mgr w) =
        skippedResult sk ''Producto no encontrado en Manager+'') \<and>
   (lookupManagerProduct mgr w sk = Return (Some mp) \<and>
    getShopifyProductStockBySKU sk shp w = Return None \<longrightarrow>
      fst (syncProductStock sk options shp loc mgr w) =
        skippedResult sk ''Producto no encontrado en Shopify'') \<and>
   ((mgr = None \<or> (\<exists>m. mgr = Some m \<and> m sk = None)) \<and>
    (w_manager w 1 = Ok None \<or> (\<exists>e. w_manager w 1 = Err e \<and> err_status e = Some 404)) \<longrightarrow>
      lookupManagerProduct mgr w sk = Return None) \<and>
   ((\<exists>m. shp = Some m \<and> m sk = None) \<longrightarrow> getShopifyProductStockBySKU sk shp w = Return None) \<and>
   (action r = Skipped \<longrightarrow> \<not> retryable r \<and> r \<notin> set (failedProducts details)) \<and>
   (lookupManagerProduct mgr w sk = Return (Some mp) \<and>
    getShopifyProductStockBySKU sk shp w = Return (Some sp) \<and>
    mp_stock mp = currentStock sp \<and> \<not> o_forceUpdate options \<longrightarrow>
      action (fst (syncProductStock sk options shp loc mgr w)) = NoChange \<and>
      success (fst (syncProductStock sk options shp loc mgr w)) \<and>
      snd (syncProductStock sk options shp loc mgr w) = []) \<and>
   (lookupManagerProduct mgr w sk = Return (Some mp) \<and>
    getShopifyProductStockBySKU sk shp w = Return (Some sp) \<and>
    o_forceUpdate options \<and> o_dryRun options \<longrightarrow>
      action (fst (syncProductStock sk options shp loc mgr w)) = WouldUpdate \<and>
      snd (syncProductStock sk options shp loc mgr w) = []) \<and>
   (lookupManagerProduct mgr w sk = Return (Some mp) \<and>
    getShopifyProductStockBySKU sk shp w = Return (Some sp) \<and>
    o_forceUpdate options \<and> \<not> o_dryRun options \<and> loc = Some l \<and> l \<noteq> 0 \<longrightarrow>
      snd (syncProductStock sk options shp loc mgr w) =
        [\<lparr>sw_inventoryItemId = inventoryItemId sp, sw_locationId = l,
          sw_available = mp_stock mp\<rparr>] \<and>
      (w_update w = Ok () \<longrightarrow>
         action (fst (syncProductStock sk options shp loc mgr w)) = Updated))"
proof (intro conjI impI)
  assume "lookupManagerProduct mgr w sk = Return None"
  then show "fst (syncProductStock sk options shp loc mgr w) =
        skippedResult sk ''Producto no encontrado en Manager+''"
    by (simp add: syncProductStock_def)
next
  assume "lookupManagerProduct mgr w sk = Return (Some mp) \<and>
    getShopifyProductStockBySKU sk shp w = Return None"
  then show "fst (syncProductStock sk options shp loc mgr w) =
        skippedResult sk ''Producto no encontrado en Shopify''"
    by (simp add: syncProductStock_def)
next
  assume "(mgr = None \<or> (\<exists>m. mgr = Some m \<and> m sk = None)) \<and>
    (w_manager w 1 = Ok None \<or> (\<exists>e. w_manager w 1 = Err e \<and> err_status e = Some 404))"
  then show "lookupManagerProduct mgr w sk = Return None"
    using lookupManagerProduct_absent by blast
next
  assume "\<exists>m. shp = Some m \<and> m sk = None"
  then show "getShopifyProductStockBySKU sk shp w = Return None"
    using getShopifyProductStockBySKU_absent by blast
next
  assume a: "action r = Skipped"
  then show "\<not> retryable r" by (rule skipped_not_retryable)
  show "r \<notin> set (failedProducts details)"
    using a by (simp add: failedProducts_def skipped_not_retryable)
next
  assume a: "lookupManagerProduct mgr w sk = Return (Some mp) \<and>
    getShopifyProductStockBySKU sk shp w = Return (Some sp) \<and>
    mp_stock mp = currentStock sp \<and> \<not> o_forceUpdate options"
  then show "action (fst (syncProductStock sk options shp loc mgr w)) = NoChange"
    and "success (fst (syncProductStock sk options shp loc mgr w))"
    and "snd (syncProductStock sk options shp loc mgr w) = []"
    by (simp_all add: syncProductStock_def Let_def)
next
  assume a: "lookupManagerProduct mgr w sk = Return (Some mp) \<and>
    getShopifyProductStockBySKU sk shp w = Return (Some sp) \<and>
    o_forceUpdate options \<and> o_dryRun options"
  then show "action (fst (syncProductStock sk options shp loc mgr w)) = WouldUpdate"
    and "snd (syncProductStock sk options shp loc mgr w) = []"
    by (simp_all add: syncProductStock_def Let_def)
next
  assume a: "lookupManagerProduct mgr w sk = Return (Some mp) \<and>
    getShopifyProductStockBySKU sk shp w = Return (Some sp) \<and>
    o_forceUpdate options \<and> \<not> o_dryRun options \<and> loc = Some l \<and> l \<noteq> 0"
  then show "snd (syncProductStock sk options shp loc mgr w) =
        [\<lparr>sw_inventoryItemId = inventoryItemId sp, sw_locationId = l,
          sw_available = mp_stock mp\<rparr>]"
    by (simp add: syncProductStock_def Let_def split: thrown_or.splits)
  assume "w_update w = Ok ()"
  then show "action (fst (syncProductStock sk options shp loc mgr w)) = Updated"
    using a by (simp add: syncProductStock_def updateShopifyStock_def Let_def)
qed

lemma forced_dry_run_E:
  "syncProductStock ''E'' forcedDryRun (Some shopifyCatalogue) loc (Some managerCatalogue) worldOk =
     (\<lparr>sku = ''E'', success = True, error = None, action = WouldUpdate,
       managerStock = Some 3, shopifyStock = Some 3, newStock = Some 3,
       message = Some ''Dry run: no se realizaron cambios''\<rparr>, [])"
  by (simp add: syncProductStock_def lookupManagerProduct_def getShopifyProductStockBySKU_def
      managerCatalogue_def shopifyCatalogue_def forcedDryRun_def optionsWith_def)

text \<open>
  C8 as stated fails in two ways. With \<open>forceUpdate\<close> set in a dry run, SKU E, whose
  stocks are equal, is reported \<open>would_update\<close> and nothing is written. And SKU F, absent
  from the Shopify catalogue, yields \<open>error\<close> when the Manager+ lookup, which comes
  first, is answered 429: its key is then in the list of the first retry pass.
\<close>

theorem forced_dry_run_writes_nothing:
  "o_forceUpdate forcedDryRun \<and>
   map_option mp_stock (managerCatalogue ''E'') = map_option currentStock (shopifyCatalogue ''E'') \<and>
   action (fst (syncProductStock ''E'' forcedDryRun (Some shopifyCatalogue) (Some 1)
                  (Some managerCatalogue) worldOk)) = WouldUpdate \<and>
   snd (syncProductStock ''E'' forcedDryRun (Some shopifyCatalogue) (Some 1)
          (Some managerCatalogue) worldOk) = [] \<and>
   shopifyCatalogue ''F'' = None \<and>
   action (rateLimitedWorker 0 ''F'') = Error \<and>
   map sku (failedProducts [rateLimitedWorker 0 ''F'']) = [''F'']"
proof -
  have "o_forceUpdate forcedDryRun" by (simp add: forcedDryRun_def)
  moreover have "map_option mp_stock (managerCatalogue ''E'') =
                 map_option currentStock (shopifyCatalogue ''E'')"
    by (simp add: managerCatalogue_def shopifyCatalogue_def)
  moreover have "shopifyCatalogue ''F'' = None" by (simp add: shopifyCatalogue_def)
  moreover have "action (rateLimitedWorker 0 ''F'') = Error"
    by (simp add: rateLimitedWorker_result errorResult_def)
  moreover have "map sku (failedProducts [rateLimitedWorker 0 ''F'']) = [''F'']"
    by (simp add: rateLimitedWorker_result errorResult_def failedProducts_def retryable_def)
  ultimately show ?thesis by (simp add: forced_dry_run_E)
qed

theorem skipped_and_no_change_witness:
  "lookupManagerProduct (Some managerCatalogue) worldOk ''F'' = Return None \<and>
   healthyWorker 5 ''F'' = skippedResult ''F'' ''Producto no encontrado en Manager+'' \<and>
   \<not> retryable (healthyWorker 5 ''F'') \<and>
   lookupManagerProduct (Some managerCatalogue) worldOk ''G'' =
     Return (Some \<lparr>mp_sku = ''G'', mp_stock = 9\<rparr>) \<and>
   getShopifyProductStockBySKU ''G'' (Some shopifyCatalogue) worldOk = Return None \<and>
   healthyWorker 6 ''G'' = skippedResult ''G'' ''Producto no encontrado en Shopify'' \<and>
   lookupManagerProduct (Some managerCatalogue) worldOk ''E'' =
     Return (Some \<lparr>mp_sku = ''E'', mp_stock = 3\<rparr>) \<and>
   getShopifyProductStockBySKU ''E'' (Some shopifyCatalogue) worldOk =
     Return (Some \<lparr>sp_sku = ''E'', inventoryItemId = 11, currentStock = 3\<rparr>) \<and>
   \<not> o_forceUpdate (optionsWith None) \<and>
   action (healthyWorker 4 ''E'') = NoChange \<and>
   o_forceUpdate forcedDryRun \<and> o_dryRun forcedDryRun \<and>
   action (fst (syncProductStock ''E'' forcedDryRun (Some shopifyCatalogue) (Some 1)
                  (Some managerCatalogue) worldOk)) = WouldUpdate \<and>
   o_forceUpdate forcedOptions \<and> \<not> o_dryRun forcedOptions \<and> w_update worldOk = Ok () \<and>
   syncProductStock ''E'' forcedOptions (Some shopifyCatalogue) (Some 1)
       (Some managerCatalogue) worldOk =
     (\<lparr>sku = ''E'', success = True, error = None, action = Updated, managerStock = Some 3,
       shopifyStock = Some 3, newStock = Some 3,
       message = Some ''Stock actualizado exitosamente''\<rparr>,
      [\<lparr>sw_inventoryItemId = 11, sw_locationId = 1, sw_available = 3\<rparr>])"
proof -
  have lF: "lookupManagerProduct (Some managerCatalogue) worldOk ''F'' = Return None"
    by (simp add: lookupManagerProduct_def managerCatalogue_def worldOk_def
        getManagerProductBySKU.simps)
  have lG: "lookupManagerProduct (Some managerCatalogue) worldOk ''G'' =
              Return (Some \<lparr>mp_sku = ''G'', mp_stock = 9\<rparr>)"
    by (simp add: lookupManagerProduct_def managerCatalogue_def)
  have sG: "getShopifyProductStockBySKU ''G'' (Some shopifyCatalogue) worldOk = Return None"
    by (simp add: getShopifyProductStockBySKU_def shopifyCatalogue_def)
  have lE: "lookupManagerProduct (Some managerCatalogue) worldOk ''E'' =
              Return (Some \<lparr>mp_sku = ''E'', mp_stock = 3\<rparr>)"
    by (simp add: lookupManagerProduct_def managerCatalogue_def)
  have sE: "getShopifyProductStockBySKU ''E'' (Some shopifyCatalogue) worldOk =
     Return (Some \<lparr>sp_sku = ''E'', inventoryItemId = 11, currentStock = 3\<rparr>)"
    by (simp add: getShopifyProductStockBySKU_def shopifyCatalogue_def)
  have o: "\<not> o_forceUpdate (optionsWith None)" "o_forceUpdate forcedDryRun" "o_dryRun forcedDryRun"
    "o_forceUpdate forcedOptions" "\<not> o_dryRun forcedOptions" "w_update worldOk = Ok ()"
    by (simp_all add: optionsWith_def forcedDryRun_def forcedOptions_def worldOk_def)
  have u: "syncProductStock ''E'' forcedOptions (Some shopifyCatalogue) (Some 1)
       (Some managerCatalogue) worldOk =
     (\<lparr>sku = ''E'', success = True, error = None, action = Updated, managerStock = Some 3,
       shopifyStock = Some 3, newStock = Some 3,
       message = Some ''Stock actualizado exitosamente''\<rparr>,
      [\<lparr>sw_inventoryItemId = 11, sw_locationId = 1, sw_available = 3\<rparr>])"
    using o(4,5,6) by (simp add: syncProductStock_def lE sE updateShopifyStock_def)
  show ?thesis
    using skipped_and_no_change[where mgr = "Some managerCatalogue" and w = worldOk and sk = "''F''"
        and options = "optionsWith None" and shp = "Some shopifyCatalogue" and loc = "Some 1"
        and r = "healthyWorker 5 ''F''"]
      skipped_and_no_change[where mgr = "Some managerCatalogue" and w = worldOk and sk = "''G''"
        and options = "optionsWith None" and shp = "Some shopifyCatalogue" and loc = "Some 1"
        and mp = "\<lparr>mp_sku = ''G'', mp_stock = 9\<rparr>"]
      skipped_and_no_change[where mgr = "Some managerCatalogue" and w = worldOk and sk = "''E''"
        and options = "optionsWith None" and shp = "Some shopifyCatalogue" and loc = "Some 1"
        and mp = "\<lparr>mp_sku = ''E'', mp_stock = 3\<rparr>"
        and sp = "\<lparr>sp_sku = ''E'', inventoryItemId = 11, currentStock = 3\<rparr>"]
      skipped_and_no_change[where mgr = "Some managerCatalogue" and w = worldOk and sk = "''E''"
        and options = forcedDryRun and shp = "Some shopifyCatalogue" and loc = "Some 1"
        and mp = "\<lparr>mp_sku = ''E'', mp_stock = 3\<rparr>"
        and sp = "\<lparr>sp_sku = ''E'', inventoryItemId = 11, currentStock = 3\<rparr>"]
      lF lG sG lE sE o u
    by (simp add: healthyWorker_def worker_def skippedResult_def)
qed

end
